theory Spec2Isabelle
  imports Complex_Main "HOL-Library.Multiset" "HOL-Library.Word"
begin

section \<open>The paired-volume batch generator of \<^verbatim>\<open>unet3d/generator_siam.py\<close>\<close>

text \<open>
  A shallow embedding of the module: the step calculator, the fixed training/validation
  split, the raw record reader, the sample loader, the batch assembler with its label
  encoder, and the generator loop. Exceptions are values of \<open>error\<close>; printing, the
  random source and the two pickled split files are fields of an explicit \<open>world\<close>
  that every effectful function takes and returns.
\<close>

subsection \<open>Errors, console output, the world\<close>

text \<open>
  The module has two bare \<^verbatim>\<open>raise\<close> statements with no active exception (Python
  turns both into a \<^verbatim>\<open>RuntimeError\<close>); they are kept apart by the place that
  raises: \<open>InvalidSubjectLabel\<close> is line 315, \<open>DataConsistencyError\<close> is line 244.
  \<open>NameError\<close> carries the undefined name. The other constructors are the built-in
  exceptions the interpreter, numpy or the file store raise on the way.
\<close>

datatype error =
    InvalidSubjectLabel
  | DataConsistencyError
  | NameError string
  | IndexError
  | TypeError
  | ValueError
  | AttributeError
  | ZeroDivisionError
  | OverflowError
  | FileNotFoundError
  | UnicodeDecodeError
  | ExternalError

datatype out = Str string | Num int

record world =
  stdout :: "out list"
  rng :: "nat \<Rightarrow> nat"
  files :: "string \<rightharpoonup> int list"

definition print :: "out \<Rightarrow> world \<Rightarrow> world" where
  "print line w = w\<lparr>stdout := stdout w @ [line]\<rparr>"

subsection \<open>Arrays and the dataset file\<close>

text \<open>
  An n-dimensional array is its shape and its elements in row-major order. What an image
  volume holds (16-bit integers, 32-bit floats, ...) is decided by whoever wrote the
  dataset file and by the augmentation utility, and neither is in this module: the type
  \<open>'a\<close> of a voxel is a parameter of the model, and so is numpy's arithmetic on it
  (\<open>ufuncs\<close> below). Label maps hold integers; an affine is handed to the augmentation
  utility as it is read. An index is a plain subject index or, in patch mode, a pair of
  a subject index and a patch offset. A dataset file answers an index with a value or
  fails (\<open>None\<close>, an \<^verbatim>\<open>IndexError\<close> of the store); \<open>root_truth\<close> is
  \<^verbatim>\<open>root.truth[index, 0]\<close>.
\<close>

record 'a ndarray =
  shape :: "nat list"
  elems :: "'a list"

datatype index = Idx int | PatchIdx int "int list"

record 'a data_file =
  root_data :: "index \<rightharpoonup> 'a ndarray"
  root_truth :: "index \<rightharpoonup> int ndarray"
  root_affine :: "index \<rightharpoonup> rat list list"
  root_subject_ids :: "index \<rightharpoonup> string"

text \<open>A Python value that is either a list of arrays or one array (what
  \<^verbatim>\<open>y\<close> is in \<^verbatim>\<open>convert_data\<close>).\<close>

datatype 'a pyobj = PyList "'a ndarray list" | PyArray "'a ndarray"

subsection \<open>Step calculator (lines 97-103)\<close>

text \<open>
  The two arguments are Python integers, which have no bound. \<^verbatim>\<open>np.remainder\<close>
  takes them as 64-bit signed integers: numpy (from version 2) refuses a Python integer
  outside that range with \<^verbatim>\<open>OverflowError\<close>. (Older versions do not raise there but
  compute through 64-bit floats.) Inside the range the remainder floors, as \<open>mod\<close>
  on \<open>int\<close> does, and the remainder by zero is 0. Python's \<^verbatim>\<open>//\<close> floors as
  \<open>div\<close> does, on integers of any size, and raises on a zero divisor.
\<close>

definition int64 :: "int \<Rightarrow> bool" where
  "int64 a = (- (2 ^ 63) \<le> a \<and> a < 2 ^ 63)"

definition np_remainder :: "int \<Rightarrow> int \<Rightarrow> error + int" where
  "np_remainder a b =
     (if int64 a \<and> int64 b then Inr (if b = 0 then 0 else a mod b) else Inl OverflowError)"

definition floordiv :: "int \<Rightarrow> int \<Rightarrow> error + int" where
  "floordiv a b = (if b = 0 then Inl ZeroDivisionError else Inr (a div b))"

definition get_number_of_steps :: "int \<Rightarrow> int \<Rightarrow> error + int" where
  "get_number_of_steps n_samples batch_size =
     (if n_samples \<le> batch_size then Inr n_samples
      else
        (case np_remainder n_samples batch_size of
           Inl e \<Rightarrow> Inl e
         | Inr r \<Rightarrow>
             if r = 0 then floordiv n_samples batch_size
             else (case floordiv n_samples batch_size of
                     Inl e \<Rightarrow> Inl e
                   | Inr q \<Rightarrow> Inr (q + 1))))"

subsection \<open>Validation split (lines 106-146)\<close>

text \<open>\<^verbatim>\<open>range(a, b)\<close> is the integers from \<open>a\<close> up to \<open>b - 1\<close>.\<close>

definition py_range :: "int \<Rightarrow> int \<Rightarrow> int list" where
  "py_range a b = [a..b - 1]"

text \<open>
  \<^verbatim>\<open>random.shuffle\<close> of the standard library: for \<open>i\<close> from \<open>len(x) - 1\<close> down
  to 1, draw \<open>j\<close> below \<open>i + 1\<close> and swap \<open>x[i]\<close> with \<open>x[j]\<close>. A draw reads the
  head of the random source and moves the source on.
\<close>

fun shuffle_loop :: "nat \<Rightarrow> 'a list \<Rightarrow> (nat \<Rightarrow> nat) \<Rightarrow> 'a list \<times> (nat \<Rightarrow> nat)" where
  "shuffle_loop 0 x r = (x, r)"
| "shuffle_loop (Suc i) x r =
     (let j = r 0 mod (Suc i + 1)
      in shuffle_loop i (x[Suc i := x ! j, j := x ! Suc i]) (r \<circ> Suc))"

definition shuffle :: "'a list \<Rightarrow> world \<Rightarrow> 'a list \<times> world" where
  "shuffle x w =
     (case shuffle_loop (length x - 1) x (rng w) of
        (x', r') \<Rightarrow> (x', w\<lparr>rng := r'\<rparr>))"

text \<open>Modelled from the spec: \<^verbatim>\<open>pickle_dump\<close> and \<^verbatim>\<open>pickle_load\<close> of
  \<^verbatim>\<open>unet3d.utils\<close>, which are not among the sources: \<open>dump(value, path)\<close> persists a
  list to a file path, \<open>load(path)\<close> returns the previously dumped value.\<close>

definition pickle_dump :: "int list \<Rightarrow> string \<Rightarrow> world \<Rightarrow> world" where
  "pickle_dump item out_file w = w\<lparr>files := (files w)(out_file \<mapsto> item)\<rparr>"

definition pickle_load :: "string \<Rightarrow> world \<Rightarrow> error + int list" where
  "pickle_load in_file w =
     (case files w in_file of None \<Rightarrow> Inl FileNotFoundError | Some item \<Rightarrow> Inr item)"

definition path_exists :: "string \<Rightarrow> world \<Rightarrow> bool" where
  "path_exists path w = (files w path \<noteq> None)"

definition get_validation_split ::
  "'a data_file \<Rightarrow> string \<Rightarrow> string \<Rightarrow> rat \<Rightarrow> bool \<Rightarrow> world
     \<Rightarrow> (error + int list \<times> int list) \<times> world" where
  "get_validation_split data_file training_file validation_file data_split overwrite w =
     (if overwrite \<or> \<not> path_exists training_file w then
        (let w1 = print (Str ''Creating validation split...'') w;
             test_listA = py_range 10 30;
             train_listA1 = py_range 0 10;
             train_listA2 = py_range 30 42;
             test_listB = py_range 52 72;
             train_listB1 = py_range 42 52;
             train_listB2 = py_range 72 239;
             test_listC = py_range 249 269;
             train_listC1 = py_range 239 249;
             train_listC2 = py_range 269 299;
             training_list = train_listA1 @ train_listA2 @ train_listB1 @ train_listB2
               @ [last train_listB2] @ concat (replicate 5 train_listC1)
               @ concat (replicate 5 train_listC2);
             validation_list = test_listA @ test_listB @ test_listC
         in (case shuffle training_list w1 of
               (training_list', w2) \<Rightarrow>
                 (Inr (training_list', validation_list),
                  pickle_dump validation_list validation_file
                    (pickle_dump training_list' training_file w2))))
      else
        (let w1 = print (Str ''Loading previous validation split...'') w
         in (case pickle_load training_file w1 of
               Inl e \<Rightarrow> (Inl e, w1)
             | Inr training_list \<Rightarrow>
                 (case pickle_load validation_file w1 of
                    Inl e \<Rightarrow> (Inl e, w1)
                  | Inr validation_list \<Rightarrow> (Inr (training_list, validation_list), w1)))))"

subsection \<open>Raw record reader (lines 298-316)\<close>

text \<open>\<^verbatim>\<open>str.split(sep)\<close> with a one-character separator: the segments between the
  separators, in order; never an empty list (the empty string gives one empty segment).\<close>

fun str_split :: "string \<Rightarrow> char \<Rightarrow> string list" where
  "str_split [] sep = [[]]"
| "str_split (c # cs) sep =
     (if c = sep then [] # str_split cs sep
      else (case str_split cs sep of
              [] \<Rightarrow> [[c]]
            | seg # segs \<Rightarrow> (c # seg) # segs))"

definition store_get :: "('k \<rightharpoonup> 'v) \<Rightarrow> 'k \<Rightarrow> error + 'v" where
  "store_get m k = (case m k of None \<Rightarrow> Inl IndexError | Some v \<Rightarrow> Inr v)"

definition py_truthy :: "nat list option \<Rightarrow> bool" where
  "py_truthy patch_shape = (case patch_shape of None \<Rightarrow> False | Some s \<Rightarrow> s \<noteq> [])"

text \<open>
  The \<^verbatim>\<open>else\<close> branch of \<^verbatim>\<open>get_data_from_file\<close> (lines 305-316), which the
  recursive call of the patch branch also reaches. \<open>decode\<close> is \<^verbatim>\<open>bytes.decode\<close>,
  a parameter: it returns the text or fails. \<open>last\<close> is total here because
  \<open>str_split\<close> never returns the empty list; the \<^verbatim>\<open>[0]\<close> on an empty last
  segment is the \<^verbatim>\<open>IndexError\<close> of Python.
\<close>

definition whole_volume ::
  "(string \<Rightarrow> error + string) \<Rightarrow> 'a data_file \<Rightarrow> index \<Rightarrow> world
     \<Rightarrow> (error + 'a ndarray \<times> int ndarray \<times> int) \<times> world" where
  "whole_volume decode data_file index w =
     (case store_get (root_data data_file) index of
        Inl e \<Rightarrow> (Inl e, w)
      | Inr x \<Rightarrow>
     (case store_get (root_truth data_file) index of
        Inl e \<Rightarrow> (Inl e, w)
      | Inr y \<Rightarrow>
     (case store_get (root_subject_ids data_file) index of
        Inl e \<Rightarrow> (Inl e, w)
      | Inr ids \<Rightarrow>
     (case decode ids of
        Inl e \<Rightarrow> (Inl e, w)
      | Inr ids' \<Rightarrow>
     (case last (str_split ids' CHR ''-'') of
        [] \<Rightarrow> (Inl IndexError, w)
      | ids_AC # _ \<Rightarrow>
          if ids_AC = CHR ''C'' then (Inr (x, y, 1), w)
          else if ids_AC = CHR ''A'' \<or> ids_AC = CHR ''B'' then (Inr (x, y, 0), w)
          else (Inl InvalidSubjectLabel, print (Str ''not A or B, C !!!'') w))))))"

text \<open>
  With a patch shape the index must be a pair (unpacking a plain integer is a
  \<^verbatim>\<open>TypeError\<close>); the recursive whole-volume read returns three values, and line 301
  unpacks them into two names, a \<^verbatim>\<open>ValueError\<close>.
\<close>

definition get_data_from_file ::
  "(string \<Rightarrow> error + string) \<Rightarrow> 'a data_file \<Rightarrow> index \<Rightarrow> nat list option \<Rightarrow> world
     \<Rightarrow> (error + 'a ndarray \<times> int ndarray \<times> int) \<times> world" where
  "get_data_from_file decode data_file index patch_shape w =
     (if py_truthy patch_shape then
        (case index of
           Idx _ \<Rightarrow> (Inl TypeError, w)
         | PatchIdx index' patch_index \<Rightarrow>
             (case whole_volume decode data_file (Idx index') w of
                (Inl e, w') \<Rightarrow> (Inl e, w')
              | (Inr _, w') \<Rightarrow> (Inl ValueError, w')))
      else whole_volume decode data_file index w)"

subsection \<open>Sample loader (lines 217-296)\<close>

definition newaxis :: "'a ndarray \<Rightarrow> 'a ndarray" where
  "newaxis a = a\<lparr>shape := 1 # shape a\<rparr>"

definition np_any_nonzero :: "int ndarray \<Rightarrow> bool" where
  "np_any_nonzero a = list_ex (\<lambda>v. v \<noteq> 0) (elems a)"

text \<open>
  The numpy operations that the normalization applies to the voxels of a volume:
  \<^verbatim>\<open>minimum\<close> and \<^verbatim>\<open>maximum\<close> (which \<^verbatim>\<open>min()\<close> and \<^verbatim>\<open>max()\<close> reduce
  with), \<^verbatim>\<open>==\<close>, \<^verbatim>\<open>-\<close> and \<^verbatim>\<open>/\<close>. What they compute depends on the dtype of
  the volume. On integers the subtraction wraps around; on floats it rounds, overflows
  to an infinity, and \<^verbatim>\<open>minimum\<close> and \<^verbatim>\<open>maximum\<close> propagate NaN. The true
  division returns a float, of type \<open>'b\<close>: for a volume of integers that is another
  type than the volume's own. The operations are a parameter \<open>u\<close> of the model.
\<close>

record ('a, 'b) ufuncs =
  np_minimum :: "'a \<Rightarrow> 'a \<Rightarrow> 'a"
  np_maximum :: "'a \<Rightarrow> 'a \<Rightarrow> 'a"
  np_equal :: "'a \<Rightarrow> 'a \<Rightarrow> bool"
  np_subtract :: "'a \<Rightarrow> 'a \<Rightarrow> 'a"
  np_true_divide :: "'a \<Rightarrow> 'a \<Rightarrow> 'b"

text \<open>\<^verbatim>\<open>min()\<close> and \<^verbatim>\<open>max()\<close> of an array reduce it from the left with
  \<^verbatim>\<open>minimum\<close> and \<^verbatim>\<open>maximum\<close>, and raise \<^verbatim>\<open>ValueError\<close> on a zero-size
  array.\<close>

definition amin :: "('a, 'b) ufuncs \<Rightarrow> 'a ndarray \<Rightarrow> error + 'a" where
  "amin u a =
     (case elems a of
        [] \<Rightarrow> Inl ValueError
      | v # vs \<Rightarrow> Inr (fold (\<lambda>x m. np_minimum u m x) vs v))"

definition amax :: "('a, 'b) ufuncs \<Rightarrow> 'a ndarray \<Rightarrow> error + 'a" where
  "amax u a =
     (case elems a of
        [] \<Rightarrow> Inl ValueError
      | v # vs \<Rightarrow> Inr (fold (\<lambda>x m. np_maximum u m x) vs v))"

text \<open>
  Lines 274-277, and again 279-282 for the second volume. The result of the first
  branch, \<^verbatim>\<open>data - data\<close>, has the dtype of the volume (\<open>Inl\<close>); the result of the
  second has the dtype of the true division (\<open>Inr\<close>).
\<close>

definition min_max_normalize ::
  "('a, 'b) ufuncs \<Rightarrow> 'a ndarray \<Rightarrow> error + ('a + 'b) ndarray" where
  "min_max_normalize u d =
     (case amin u d of
        Inl e \<Rightarrow> Inl e
      | Inr lo \<Rightarrow>
     (case amax u d of
        Inl e \<Rightarrow> Inl e
      | Inr hi \<Rightarrow>
          if np_equal u lo hi
          then Inr \<lparr>shape = shape d, elems = map (\<lambda>v. Inl (np_subtract u v v)) (elems d)\<rparr>
          else Inr \<lparr>shape = shape d,
                    elems = map (\<lambda>v. Inr (np_true_divide u (np_subtract u v lo)
                                             (np_subtract u hi lo)))
                              (elems d)\<rparr>))"

text \<open>Lines 247-252: the affine of the subject, \<^verbatim>\<open>index[0]\<close> when a patch shape is
  given (subscripting a plain integer is a \<^verbatim>\<open>TypeError\<close>).\<close>

definition affine_at :: "'a data_file \<Rightarrow> index \<Rightarrow> nat list option \<Rightarrow> error + rat list list" where
  "affine_at data_file index patch_shape =
     (if patch_shape \<noteq> None then
        (case index of
           Idx _ \<Rightarrow> Inl TypeError
         | PatchIdx index' _ \<Rightarrow> store_get (root_affine data_file) (Idx index'))
      else store_get (root_affine data_file) index)"

type_synonym 'a augmenter =
  "'a ndarray \<Rightarrow> 'a ndarray \<Rightarrow> int ndarray \<Rightarrow> int ndarray \<Rightarrow> rat list list \<Rightarrow> rat list list
     \<Rightarrow> bool \<Rightarrow> rat option \<Rightarrow> (nat \<Rightarrow> nat)
     \<Rightarrow> error + ('a ndarray \<times> int ndarray \<times> 'a ndarray \<times> int ndarray) \<times> (nat \<Rightarrow> nat)"

type_synonym ('a, 'b) x_list = "('a + 'b) ndarray list \<times> ('a + 'b) ndarray list"

type_synonym y_list = "int list \<times> int ndarray list \<times> int ndarray list"

text \<open>
  \<open>augment_data\<close> is the augmentation utility of \<^verbatim>\<open>unet3d.augment\<close>, a parameter: it
  reads the random source and returns the four volumes or fails. The permutation branch
  (lines 255-259) reads the name \<^verbatim>\<open>data\<close>, which the assignment of line 259 makes
  a local of the function and which nothing has bound yet: an
  \<^verbatim>\<open>UnboundLocalError\<close>, which is a \<^verbatim>\<open>NameError\<close>, before any shape is
  compared. The result is the exception raised, if any, the two accumulators as the
  call leaves them, and the world.
\<close>

definition add_data ::
  "(string \<Rightarrow> error + string) \<Rightarrow> 'a augmenter \<Rightarrow> ('a, 'b) ufuncs \<Rightarrow> ('a, 'b) x_list \<Rightarrow> y_list
     \<Rightarrow> 'a data_file \<Rightarrow> 'a data_file \<Rightarrow> index \<Rightarrow> bool \<Rightarrow> bool \<Rightarrow> rat option
     \<Rightarrow> nat list option \<Rightarrow> bool \<Rightarrow> bool \<Rightarrow> world
     \<Rightarrow> error option \<times> ('a, 'b) x_list \<times> y_list \<times> world" where
  "add_data decode augment_data u x_list y_list data_file0 data_file1 index augment augment_flip
     augment_distortion_factor patch_shape skip_blank permute w =
     (case get_data_from_file decode data_file0 index patch_shape w of
        (Inl e, w0) \<Rightarrow> (Some e, x_list, y_list, w0)
      | (Inr (data0, truth0, label0), w0) \<Rightarrow>
     (case get_data_from_file decode data_file1 index patch_shape w0 of
        (Inl e, w1) \<Rightarrow> (Some e, x_list, y_list, w1)
      | (Inr (data1, truth1, label1), w1) \<Rightarrow>
     if label0 \<noteq> label1 then
       (Some DataConsistencyError, x_list, y_list,
        print (Num label1) (print (Num label0)
          (print (Str ''label0 and label1 not equal !!!'') w1)))
     else
     (case (if augment then
              (case affine_at data_file0 index patch_shape of
                 Inl e \<Rightarrow> Inl e
               | Inr affine0 \<Rightarrow>
              (case affine_at data_file1 index patch_shape of
                 Inl e \<Rightarrow> Inl e
               | Inr affine1 \<Rightarrow>
              (case augment_data data0 data1 truth0 truth1 affine0 affine1 augment_flip
                      augment_distortion_factor (rng w1) of
                 Inl e \<Rightarrow> Inl e
               | Inr (augmented, r) \<Rightarrow> Inr (augmented, w1\<lparr>rng := r\<rparr>))))
            else Inr ((data0, truth0, data1, truth1), w1)) of
        Inl e \<Rightarrow> (Some e, x_list, y_list, w1)
      | Inr ((data0, truth0, data1, truth1), w2) \<Rightarrow>
     if permute then (Some (NameError ''data''), x_list, y_list, w2)
     else
     (let truth0 = newaxis truth0; truth1 = newaxis truth1
      in if \<not> skip_blank \<or> (np_any_nonzero truth0 \<or> np_any_nonzero truth1) then
           (case min_max_normalize u data0 of
              Inl e \<Rightarrow> (Some e, x_list, y_list, w2)
            | Inr data0_0 \<Rightarrow>
           (case min_max_normalize u data1 of
              Inl e \<Rightarrow> (Some e, x_list, y_list, w2)
            | Inr data1_0 \<Rightarrow>
                (None,
                 (fst x_list @ [data0_0], snd x_list @ [data1_0]),
                 (fst y_list @ [label0], fst (snd y_list) @ [truth0], snd (snd y_list) @ [truth1]),
                 w2)))
         else (None, x_list, y_list, w2)))))"

subsection \<open>Multi-class label encoder (lines 357-372)\<close>

text \<open>
  The first statement reads \<^verbatim>\<open>data.shape\<close>: an \<^verbatim>\<open>AttributeError\<close> when
  \<^verbatim>\<open>data\<close> is a Python list. On an array of shape \<open>n # c # rest\<close> the mask
  \<^verbatim>\<open>data[:, 0] == v\<close> has shape \<open>n # rest\<close>, and the assignment
  \<^verbatim>\<open>y[:, label_index][mask] = 1\<close> writes 1 into channel \<open>label_index\<close> of \<open>y\<close>
  wherever the mask holds. Indexing a missing axis, channel 0 of an array with no
  channel, or a label list that is too short, is an \<^verbatim>\<open>IndexError\<close>.
\<close>

definition channel0 :: "'a ndarray \<Rightarrow> error + 'a list" where
  "channel0 a =
     (case shape a of
        n # c # rest \<Rightarrow>
          if c = 0 then Inl IndexError
          else Inr (concat (map (\<lambda>i. take (prod_list rest) (drop (i * c * prod_list rest) (elems a)))
                      [0..<n]))
      | _ \<Rightarrow> Inl IndexError)"

definition assign_channel :: "int ndarray \<Rightarrow> nat \<Rightarrow> bool list \<Rightarrow> int ndarray" where
  "assign_channel y label_index chosen =
     (case shape y of
        n # l # rest \<Rightarrow>
          (let sz = prod_list rest
           in y\<lparr>elems :=
                 map (\<lambda>p. if (p div sz) mod l = label_index \<and> chosen ! ((p div (l * sz)) * sz + p mod sz)
                          then 1 else elems y ! p)
                   [0..<length (elems y)]\<rparr>)
      | _ \<Rightarrow> y)"

definition label_value :: "int list option \<Rightarrow> nat \<Rightarrow> error + int" where
  "label_value labels label_index =
     (case labels of
        Some ls \<Rightarrow> if label_index < length ls then Inr (ls ! label_index) else Inl IndexError
      | None \<Rightarrow> Inr (int label_index + 1))"

fun label_loop ::
  "nat list \<Rightarrow> int ndarray \<Rightarrow> int list option \<Rightarrow> int ndarray \<Rightarrow> error + int ndarray" where
  "label_loop [] data labels y = Inr y"
| "label_loop (label_index # rest) data labels y =
     (case channel0 data of
        Inl e \<Rightarrow> Inl e
      | Inr ch \<Rightarrow>
     (case label_value labels label_index of
        Inl e \<Rightarrow> Inl e
      | Inr v \<Rightarrow>
          label_loop rest data labels (assign_channel y label_index (map (\<lambda>d. d = v) ch))))"

definition np_zeros :: "nat list \<Rightarrow> int ndarray" where
  "np_zeros new_shape = \<lparr>shape = new_shape, elems = replicate (prod_list new_shape) 0\<rparr>"

definition get_multi_class_labels ::
  "int pyobj \<Rightarrow> int \<Rightarrow> int list option \<Rightarrow> error + int ndarray" where
  "get_multi_class_labels data n_labels labels =
     (case data of
        PyList _ \<Rightarrow> Inl AttributeError
      | PyArray a \<Rightarrow>
          (case shape a of
             [] \<Rightarrow> Inl IndexError
           | n # _ \<Rightarrow>
               if n_labels < 0 then Inl ValueError
               else label_loop [0..<nat n_labels] a labels
                      (np_zeros ([n, nat n_labels] @ drop 2 (shape a)))))"

subsection \<open>Batch assembler (lines 337-355)\<close>

text \<open>
  \<^verbatim>\<open>np.asarray\<close> of a list of equally shaped arrays is the array with one more leading
  axis; a ragged list is refused (\<^verbatim>\<open>ValueError\<close>, numpy 1.24 and later), and the
  empty list is the empty array of shape \<open>[0]\<close>. Where the volumes of a list differ
  in dtype (all-zero volumes of the stored dtype among scaled ones), numpy stores the
  array in the wider dtype, which keeps every value; the array of the model keeps each
  value with its tag. \<^verbatim>\<open>y\<close> is a Python list of three arrays, and line 350 hands
  that list to the encoder.
\<close>

definition asarray :: "'a ndarray list \<Rightarrow> error + 'a ndarray" where
  "asarray xs =
     (case xs of
        [] \<Rightarrow> Inr \<lparr>shape = [0], elems = []\<rparr>
      | a # as \<Rightarrow>
          if list_all (\<lambda>b. shape b = shape a) as
          then Inr \<lparr>shape = length xs # shape a, elems = concat (map elems xs)\<rparr>
          else Inl ValueError)"

definition asarray_scalars :: "'a list \<Rightarrow> 'a ndarray" where
  "asarray_scalars xs = \<lparr>shape = [length xs], elems = xs\<rparr>"

definition binarize :: "int ndarray \<Rightarrow> int ndarray" where
  "binarize a = a\<lparr>elems := map (\<lambda>v. if v > 0 then 1 else v) (elems a)\<rparr>"

type_synonym ('a, 'b) batch = "(('a + 'b) ndarray \<times> ('a + 'b) ndarray) \<times> int pyobj"

definition convert_data ::
  "('a, 'b) x_list \<Rightarrow> y_list \<Rightarrow> int \<Rightarrow> int list option \<Rightarrow> error + ('a, 'b) batch" where
  "convert_data x_list y_list n_labels labels =
     (case asarray (fst x_list) of
        Inl e \<Rightarrow> Inl e
      | Inr x0 \<Rightarrow>
     (case asarray (snd x_list) of
        Inl e \<Rightarrow> Inl e
      | Inr x1 \<Rightarrow>
     (let y0 = asarray_scalars (fst y_list)
      in
     (case asarray (fst (snd y_list)) of
        Inl e \<Rightarrow> Inl e
      | Inr y1 \<Rightarrow>
     (case asarray (snd (snd y_list)) of
        Inl e \<Rightarrow> Inl e
      | Inr y2 \<Rightarrow>
          if n_labels = 1 then Inr ((x0, x1), PyList [y0, binarize y1, binarize y2])
          else if n_labels > 1 then
            (case get_multi_class_labels (PyList [y0, y1, y2]) n_labels labels of
               Inl e \<Rightarrow> Inl e
             | Inr y \<Rightarrow> Inr ((x0, x1), PyArray y))
          else Inr ((x0, x1), PyList [y0, y1, y2]))))))"

subsection \<open>Data generator (lines 160-185)\<close>

text \<open>The keyword arguments of \<^verbatim>\<open>data_generator\<close>.\<close>

record kwargs =
  batch_size :: int
  n_labels :: int
  labels :: "int list option"
  augment :: bool
  augment_flip :: bool
  augment_distortion_factor :: "rat option"
  patch_shape :: "nat list option"
  patch_overlap :: int
  patch_start_offset :: "nat list option"
  shuffle_index_list :: bool
  skip_blank :: bool
  permute :: bool

text \<open>
  The inner \<^verbatim>\<open>while\<close> loop (lines 175-185). \<^verbatim>\<open>pop()\<close> takes the last entry, so
  the loop runs over the working list from its end: the list argument is the working
  list reversed. The result is the batches yielded in order, the exception that ended
  the loop, if any, and the world.
\<close>

fun pop_loop ::
  "(string \<Rightarrow> error + string) \<Rightarrow> 'a augmenter \<Rightarrow> ('a, 'b) ufuncs \<Rightarrow> 'a data_file \<Rightarrow> 'a data_file
     \<Rightarrow> kwargs \<Rightarrow> index list \<Rightarrow> ('a, 'b) x_list \<Rightarrow> y_list \<Rightarrow> world
     \<Rightarrow> ('a, 'b) batch list \<times> error option \<times> world" where
  "pop_loop decode augment_data u data_file0 data_file1 a [] x_list y_list w = ([], None, w)"
| "pop_loop decode augment_data u data_file0 data_file1 a (index # index_list) x_list y_list w =
     (case add_data decode augment_data u x_list y_list data_file0 data_file1 index (augment a)
             (augment_flip a) (augment_distortion_factor a) (patch_shape a) (skip_blank a)
             (permute a) w of
        (Some e, _, _, w') \<Rightarrow> ([], Some e, w')
      | (None, x_list', y_list', w') \<Rightarrow>
          if int (length (fst y_list')) = batch_size a
             \<or> (length index_list = 0 \<and> length (fst y_list') > 0)
          then
            (case convert_data x_list' y_list' (n_labels a) (labels a) of
               Inl e \<Rightarrow> ([], Some e, w')
             | Inr b \<Rightarrow>
                 (case pop_loop decode augment_data u data_file0 data_file1 a index_list
                         ([], []) ([], [], []) w' of
                    (bs, e, w'') \<Rightarrow> (b # bs, e, w'')))
          else pop_loop decode augment_data u data_file0 data_file1 a index_list
                 x_list' y_list' w')"

text \<open>
  One pass of the body of \<^verbatim>\<open>while True\<close> (lines 165-185). With a patch shape, line 168
  reads the name \<^verbatim>\<open>data_file\<close>, which the function does not have: a
  \<^verbatim>\<open>NameError\<close>.
\<close>

definition epoch ::
  "(string \<Rightarrow> error + string) \<Rightarrow> 'a augmenter \<Rightarrow> ('a, 'b) ufuncs \<Rightarrow> 'a data_file \<Rightarrow> 'a data_file
     \<Rightarrow> index list \<Rightarrow> kwargs \<Rightarrow> world \<Rightarrow> ('a, 'b) batch list \<times> error option \<times> world" where
  "epoch decode augment_data u data_file0 data_file1 orig_index_list a w =
     (if py_truthy (patch_shape a) then ([], Some (NameError ''data_file''), w)
      else
        (case (if shuffle_index_list a then shuffle orig_index_list w else (orig_index_list, w)) of
           (index_list, w') \<Rightarrow>
             pop_loop decode augment_data u data_file0 data_file1 a (rev index_list)
               ([], []) ([], [], []) w'))"

text \<open>
  The generator never returns: the outer loop has no exit, so only an exception ends it.
  \<open>data_generator \<dots> k\<close> is what the first \<open>k\<close> passes of the outer loop yield, in
  order, with the exception that ended them, if any.
\<close>

fun data_generator ::
  "(string \<Rightarrow> error + string) \<Rightarrow> 'a augmenter \<Rightarrow> ('a, 'b) ufuncs \<Rightarrow> 'a data_file \<Rightarrow> 'a data_file
     \<Rightarrow> index list \<Rightarrow> kwargs \<Rightarrow> nat \<Rightarrow> world
     \<Rightarrow> ('a, 'b) batch list \<times> error option \<times> world" where
  "data_generator decode augment_data u data_file0 data_file1 index_list a 0 w = ([], None, w)"
| "data_generator decode augment_data u data_file0 data_file1 index_list a (Suc k) w =
     (case epoch decode augment_data u data_file0 data_file1 index_list a w of
        (bs, Some e, w') \<Rightarrow> (bs, Some e, w')
      | (bs, None, w') \<Rightarrow>
          (case data_generator decode augment_data u data_file0 data_file1 index_list a k w' of
             (bs', e, w'') \<Rightarrow> (bs @ bs', e, w'')))"

text \<open>The number of samples of a batch: the length of its array of derived labels
  (of its first label array), or the leading axis of an encoded array.\<close>

definition batch_len :: "('a, 'b) batch \<Rightarrow> nat" where
  "batch_len b =
     (case snd b of
        PyList (y0 # _) \<Rightarrow> length (elems y0)
      | PyList [] \<Rightarrow> 0
      | PyArray y \<Rightarrow> (case shape y of [] \<Rightarrow> 0 | n # _ \<Rightarrow> n))"

subsection \<open>Volumes of 16-bit integers\<close>

text \<open>
  One arithmetic, in full: numpy's on \<^verbatim>\<open>int16\<close> volumes. Comparison is signed,
  subtraction wraps around modulo \<open>2 ^ 16\<close>, and true division converts both operands
  to 64-bit floats and returns the float nearest to the quotient (ties to the even
  significand); a nonzero value over zero is an infinity and zero over zero is NaN.

  A finite float is given by the rational it stands for (the sign of a zero is not
  kept); \<open>f64_value\<close> reads it, and is 0 on the infinities and NaN, which stand for no
  rational. The quotient of two nonzero 16-bit integers lies between \<open>2 ^ 15\<close> and its
  inverse in magnitude: \<open>f64_scale\<close> finds the \<open>k\<close> that brings it into the range of
  a 53-bit significand, from \<open>2 ^ 52\<close> up to \<open>2 ^ 53\<close>, and \<open>f64_nearest\<close> rounds
  it there.
\<close>

datatype f64 = Finite rat | PosInf | NegInf | NaN


definition round_half_even :: "rat \<Rightarrow> int" where
  "round_half_even x =
     (let f = \<lfloor>x\<rfloor>; r = x - of_int f
      in if r < 1 / 2 then f else if 1 / 2 < r then f + 1 else if even f then f else f + 1)"

fun f64_scale :: "nat \<Rightarrow> rat \<Rightarrow> nat \<Rightarrow> nat" where
  "f64_scale 0 q k = k"
| "f64_scale (Suc n) q k = (if 2 ^ 52 \<le> q * 2 ^ k then k else f64_scale n q (Suc k))"

definition f64_nearest :: "rat \<Rightarrow> rat" where
  "f64_nearest q =
     (let k = f64_scale 75 \<bar>q\<bar> 0 in of_int (round_half_even (q * 2 ^ k)) / 2 ^ k)"

definition int16_true_divide :: "16 word \<Rightarrow> 16 word \<Rightarrow> f64" where
  "int16_true_divide a b =
     (if b = 0 then (if a = 0 then NaN else if 0 < sint a then PosInf else NegInf)
      else Finite (f64_nearest (of_int (sint a) / of_int (sint b))))"

definition int16 :: "(16 word, f64) ufuncs" where
  "int16 =
     \<lparr>np_minimum = (\<lambda>a b. if sint a < sint b then a else b),
      np_maximum = (\<lambda>a b. if sint b < sint a then a else b),
      np_equal = (\<lambda>a b. a = b),
      np_subtract = (\<lambda>a b. a - b),
      np_true_divide = int16_true_divide\<rparr>"

subsection \<open>What the specification asks for\<close>



definition label_of :: "int list option \<Rightarrow> nat \<Rightarrow> int" where
  "label_of lbls k = (case lbls of None \<Rightarrow> int k + 1 | Some ls \<Rightarrow> ls ! k)"

fun chunk_sizes :: "int \<Rightarrow> nat \<Rightarrow> nat \<Rightarrow> nat list" where
  "chunk_sizes b m 0 = []"
| "chunk_sizes b m (Suc r) =
     (if int (Suc m) = b \<or> r = 0 then Suc m # chunk_sizes b 0 r else chunk_sizes b (Suc m) r)"

subsection \<open>Small concrete inputs\<close>

text \<open>
  A dataset file that answers every index with the same record, a world with nothing
  printed and no files, an augmenter that always fails, and the default keyword
  arguments of \<^verbatim>\<open>data_generator\<close>. Four \<^verbatim>\<open>int16\<close> volumes: one with values from
  2 to 10, a constant one, one with no voxel, and one whose values span more than the
  type holds. The first two as they are appended: scaled, and all zero. Two label maps:
  an all-zero one and one with one marked voxel.
\<close>

definition uniform_file :: "string \<Rightarrow> 'a ndarray \<Rightarrow> int ndarray \<Rightarrow> 'a data_file" where
  "uniform_file ids x y =
     \<lparr>root_data = (\<lambda>_. Some x), root_truth = (\<lambda>_. Some y), root_affine = (\<lambda>_. Some []),
      root_subject_ids = (\<lambda>_. Some ids)\<rparr>"

definition quiet_world :: world where
  "quiet_world = \<lparr>stdout = [], rng = (\<lambda>_. 0), files = Map.empty\<rparr>"

definition failing_augmenter :: "'a augmenter" where
  "failing_augmenter = (\<lambda>_ _ _ _ _ _ _ _ _. Inl ExternalError)"

definition default_kwargs :: kwargs where
  "default_kwargs =
     \<lparr>batch_size = 1, n_labels = 1, labels = None, augment = False, augment_flip = True,
      augment_distortion_factor = Some (1 / 4), patch_shape = None, patch_overlap = 0,
      patch_start_offset = None, shuffle_index_list = False, skip_blank = True,
      permute = False\<rparr>"

definition ramp :: "16 word ndarray" where
  "ramp = \<lparr>shape = [1, 2, 2], elems = [2, 10, 4, 6]\<rparr>"

definition flat :: "16 word ndarray" where
  "flat = \<lparr>shape = [1, 2, 2], elems = [5, 5, 5, 5]\<rparr>"

definition hollow :: "16 word ndarray" where
  "hollow = \<lparr>shape = [1, 0, 2], elems = []\<rparr>"


definition ramp_scaled :: "(16 word + f64) ndarray" where
  "ramp_scaled =
     \<lparr>shape = [1, 2, 2],
      elems = [Inr (Finite 0), Inr (Finite 1), Inr (Finite (1 / 4)), Inr (Finite (1 / 2))]\<rparr>"

definition flat_zero :: "(16 word + f64) ndarray" where
  "flat_zero = \<lparr>shape = [1, 2, 2], elems = [Inl 0, Inl 0, Inl 0, Inl 0]\<rparr>"

definition blank :: "int ndarray" where
  "blank = \<lparr>shape = [2, 2], elems = [0, 0, 0, 0]\<rparr>"

definition lesion :: "int ndarray" where
  "lesion = \<lparr>shape = [2, 2], elems = [0, 2, 0, 0]\<rparr>"

section \<open>Properties\<close>

subsection \<open>Step calculator\<close>

text \<open>
  C2. For a non-negative sample count and a positive batch size, where the count is
  below \<open>2 ^ 63\<close> or does not exceed the batch size: the step calculator returns the
  sample count itself when it does not exceed the batch size; otherwise the quotient
  when the batch size divides the count, and the quotient plus one when it does not.
  In particular 10 samples in batches of 3 take 4 steps and 9 samples take 3.
\<close>

theorem get_number_of_steps_rule:
  assumes "0 \<le> n" and "0 < b" and "n < 2 ^ 63 \<or> n \<le> b"
  shows "get_number_of_steps n b =
           Inr (if n \<le> b then n else if b dvd n then n div b else n div b + 1)
         \<and> get_number_of_steps 10 3 = Inr 4
         \<and> get_number_of_steps 9 3 = Inr 3"
proof -
  from assms have nz: "b \<noteq> 0" by simp
  have "get_number_of_steps n b =
          Inr (if n \<le> b then n else if b dvd n then n div b else n div b + 1)"
  proof (cases "n \<le> b")
    case True
    then show ?thesis by (simp add: get_number_of_steps_def)
  next
    case False
    with assms have "int64 n" and "int64 b" by (simp_all add: int64_def)
    with False nz show ?thesis
      by (simp add: get_number_of_steps_def np_remainder_def floordiv_def dvd_eq_mod_eq_0)
  qed
  moreover have "get_number_of_steps 10 3 = Inr 4"
    by (simp add: get_number_of_steps_def np_remainder_def int64_def floordiv_def)
  moreover have "get_number_of_steps 9 3 = Inr 3"
    by (simp add: get_number_of_steps_def np_remainder_def int64_def floordiv_def)
  ultimately show ?thesis by simp
qed

theorem get_number_of_steps_rule_witness:
  "get_number_of_steps 7 2 = Inr 4 \<and> get_number_of_steps 2 5 = Inr 2
   \<and> get_number_of_steps (2 ^ 63 - 1) 2 = Inr (2 ^ 62)
   \<and> get_number_of_steps (2 ^ 63 + 1) (2 ^ 64) = Inr (2 ^ 63 + 1)"
  using get_number_of_steps_rule [of 7 2] get_number_of_steps_rule [of 2 5]
    get_number_of_steps_rule [of "2 ^ 63 - 1" 2]
    get_number_of_steps_rule [of "2 ^ 63 + 1" "2 ^ 64"]
  by simp

text \<open>
  A count of \<open>2 ^ 63 + 1\<close> samples in batches of 3 is outside that range: 3 divides
  the count, so the rule gives the quotient, but the remainder is never computed and
  the call ends in \<open>OverflowError\<close>.
\<close>

theorem get_number_of_steps_overflow:
  "(3::int) dvd 2 ^ 63 + 1 \<and> get_number_of_steps (2 ^ 63 + 1) 3 = Inl OverflowError"
  by (simp add: get_number_of_steps_def np_remainder_def int64_def)

subsection \<open>Validation split\<close>

text \<open>A swap keeps the elements, so the shuffle returns a permutation of its input,
  whatever the random source draws.\<close>

lemma shuffle_loop_mset:
  "i < length x \<Longrightarrow> mset (fst (shuffle_loop i x r)) = mset x"
proof (induction i arbitrary: x r)
  case 0
  then show ?case by simp
next
  case (Suc i)
  let ?j = "r 0 mod (Suc i + 1)"
  have "?j < Suc (Suc i)" by simp
  then have "?j \<le> Suc i" by (rule less_Suc_eq_le [THEN iffD1])
  from this Suc.prems have j: "?j < length x" by (rule le_less_trans)
  have sw: "mset (x[Suc i := x ! ?j, ?j := x ! Suc i]) = mset x"
    using mset_swap [OF j Suc.prems] by simp
  have "i < length (x[Suc i := x ! ?j, ?j := x ! Suc i])" using Suc.prems by simp
  from Suc.IH [OF this] sw show ?case by (simp add: Let_def)
qed

lemma shuffle_mset: "mset (fst (shuffle x w)) = mset x"
proof (cases x)
  case Nil
  then show ?thesis by (simp add: shuffle_def)
next
  case (Cons a as)
  then have "length x - 1 < length x" by simp
  from shuffle_loop_mset [OF this, of "rng w"] show ?thesis
    by (cases "shuffle_loop (length x - 1) x (rng w)") (simp add: shuffle_def)
qed

lemma shuffle_set: "set (fst (shuffle x w)) = set x"
  using shuffle_mset [of x w] by (rule mset_eq_setD)

lemma shuffle_length: "length (fst (shuffle x w)) = length x"
  using shuffle_mset [of x w] by (rule mset_eq_length)

lemma last_upto: "a \<le> b \<Longrightarrow> last [a..b] = b"
  by (simp add: upto_rec2)

text \<open>
  C1. When the split is created (\<open>overwrite\<close> is true or the training file does not
  exist), the validation list is exactly 10..29, 52..71, 249..268 in that order, and
  the training list is a permutation of 0..9, 30..41, 42..51, 72..238, 238 once more,
  and 239..248 and 269..298 five times each; the \<open>data_split\<close> argument has no
  effect on the result.
\<close>

theorem get_validation_split_created:
  assumes "overwrite \<or> \<not> path_exists training_file w"
  shows "\<exists>training w'.
           get_validation_split data_file training_file validation_file data_split overwrite w
             = (Inr (training, [10..29] @ [52..71] @ [249..268]), w')
           \<and> mset training =
               mset ([0..9] @ [30..41] @ [42..51] @ [72..238] @ [238]
                     @ concat (replicate 5 [239..248]) @ concat (replicate 5 [269..298]))
           \<and> get_validation_split data_file training_file validation_file data_split' overwrite w
             = get_validation_split data_file training_file validation_file data_split overwrite w"
proof -
  let ?l = "[0..9] @ [30..41] @ [42..51] @ [72..238] @ [238]
              @ concat (replicate 5 [239..248]) @ concat (replicate 5 [269..298])"
  let ?w1 = "print (Str ''Creating validation split...'') w"
  obtain t w2 where sh: "shuffle ?l ?w1 = (t, w2)" by (cases "shuffle ?l ?w1")
  have "mset t = mset ?l" using shuffle_mset [of ?l ?w1] sh by simp
  moreover have l238: "last [72..238::int] = 238" by (rule last_upto) simp
  ultimately show ?thesis
    using assms sh unfolding get_validation_split_def py_range_def Let_def
    by (simp del: replicate.simps concat.simps mset_append)
qed

theorem get_validation_split_created_witness:
  "\<exists>training w'.
     get_validation_split
       (\<lparr>root_data = Map.empty, root_truth = Map.empty, root_affine = Map.empty,
         root_subject_ids = Map.empty\<rparr> :: 16 word data_file)
       ''training.pkl'' ''validation.pkl'' (4 / 5) False
       \<lparr>stdout = [], rng = (\<lambda>_. 0), files = Map.empty\<rparr>
       = (Inr (training, [10..29] @ [52..71] @ [249..268]), w')
     \<and> mset training =
         mset ([0..9] @ [30..41] @ [42..51] @ [72..238] @ [238]
               @ concat (replicate 5 [239..248]) @ concat (replicate 5 [269..298]))"
proof -
  let ?w = "\<lparr>stdout = [], rng = (\<lambda>_. 0), files = Map.empty\<rparr>"
  have "False \<or> \<not> path_exists ''training.pkl'' ?w" by (simp add: path_exists_def)
  from get_validation_split_created [OF this,
      where data_file = "\<lparr>root_data = Map.empty, root_truth = Map.empty,
        root_affine = Map.empty, root_subject_ids = Map.empty\<rparr> :: 16 word data_file"]
  show ?thesis by blast
qed

subsection \<open>Raw record reader\<close>

lemma str_split_nonempty: "str_split s sep \<noteq> []"
  by (induction s) (simp_all split: list.splits)

lemma str_split_no_sep: "sep \<notin> set s \<Longrightarrow> str_split s sep = [s]"
  by (induction s) auto

lemma str_split_single: "(tl (str_split s sep) = []) = (sep \<notin> set s)"
proof (induction s)
  case Nil
  show ?case by simp
next
  case (Cons c cs)
  obtain seg segs where ss: "str_split cs sep = seg # segs"
    using str_split_nonempty [of cs sep] by (cases "str_split cs sep") simp_all
  show ?case using Cons ss by simp
qed

lemma takeWhile_snoc:
  "takeWhile P (xs @ [x]) = (if list_all P xs then xs @ (if P x then [x] else []) else takeWhile P xs)"
  by (induction xs) simp_all

lemma last_str_split:
  "last (str_split s sep) = rev (takeWhile (\<lambda>c. c \<noteq> sep) (rev s))"
proof (induction s)
  case Nil
  then show ?case by simp
next
  case (Cons c cs)
  obtain seg segs where ss: "str_split cs sep = seg # segs"
    using str_split_nonempty [of cs sep] by (cases "str_split cs sep") simp_all
  show ?case
  proof (cases "sep \<in> set cs")
    case True
    then have ne: "segs \<noteq> []" using str_split_single [of cs sep] ss by simp
    have nla: "\<not> list_all (\<lambda>c. c \<noteq> sep) (rev cs)" using True by (simp add: list_all_iff)
    show ?thesis using Cons ss ne nla by (simp add: takeWhile_snoc)
  next
    case False
    then have e: "segs = []" using str_split_single [of cs sep] ss by simp
    have la: "list_all (\<lambda>c. c \<noteq> sep) (rev cs)" using False by (auto simp: list_all_iff)
    then have tw: "takeWhile (\<lambda>c. c \<noteq> sep) (rev cs) = rev cs" by (simp add: list_all_iff)
    show ?thesis using Cons ss e la tw by (auto simp: takeWhile_snoc)
  qed
qed

lemma whole_volume_read:
  assumes "root_data f index = Some x" and "root_truth f index = Some y"
    and "root_subject_ids f index = Some ids" and "decode ids = Inr decoded"
  shows "whole_volume decode f index w =
     (case last (str_split decoded CHR ''-'') of
        [] \<Rightarrow> (Inl IndexError, w)
      | c # _ \<Rightarrow>
          if c = CHR ''C'' then (Inr (x, y, 1), w)
          else if c = CHR ''A'' \<or> c = CHR ''B'' then (Inr (x, y, 0), w)
          else (Inl InvalidSubjectLabel, w\<lparr>stdout := stdout w @ [Str ''not A or B, C !!!'']\<rparr>))"
  using assms by (simp add: whole_volume_def store_get_def print_def split: list.splits)

text \<open>
  C3. A whole-volume read (no patch shape) whose store reads and decoding succeed takes
  the part of the decoded subject id after its last \<open>-\<close> (the last segment of the
  split) and looks at its first character: \<open>C\<close> gives label 1, \<open>A\<close> or \<open>B\<close>
  gives label 0, and any other character prints the diagnostic line and fails with
  \<open>InvalidSubjectLabel\<close>. Only an empty last segment has no first character; the
  subscript then raises \<open>IndexError\<close>.
\<close>

theorem get_data_from_file_label:
  assumes "\<not> py_truthy ps"
    and "root_data f index = Some x" and "root_truth f index = Some y"
    and "root_subject_ids f index = Some ids" and "decode ids = Inr decoded"
  shows "get_data_from_file decode f index ps w =
     (case rev (takeWhile (\<lambda>c. c \<noteq> CHR ''-'') (rev decoded)) of
        [] \<Rightarrow> (Inl IndexError, w)
      | c # _ \<Rightarrow>
          if c = CHR ''C'' then (Inr (x, y, 1), w)
          else if c = CHR ''A'' \<or> c = CHR ''B'' then (Inr (x, y, 0), w)
          else (Inl InvalidSubjectLabel, w\<lparr>stdout := stdout w @ [Str ''not A or B, C !!!'']\<rparr>))"
  using assms whole_volume_read [of f index x y ids decode decoded w]
  by (simp add: get_data_from_file_def last_str_split)

theorem get_data_from_file_label_witness:
  "get_data_from_file Inr (uniform_file ''foo-bar-C1'' ramp lesion) (Idx 0) None quiet_world
     = (Inr (ramp, lesion, 1), quiet_world)
   \<and> get_data_from_file Inr (uniform_file ''foo-bar-A2'' ramp lesion) (Idx 0) None quiet_world
     = (Inr (ramp, lesion, 0), quiet_world)
   \<and> get_data_from_file Inr (uniform_file ''foo-bar-B9'' ramp lesion) (Idx 0) None quiet_world
     = (Inr (ramp, lesion, 0), quiet_world)
   \<and> get_data_from_file Inr (uniform_file ''foo-bar-Z1'' ramp lesion) (Idx 0) None quiet_world
     = (Inl InvalidSubjectLabel, quiet_world\<lparr>stdout := [Str ''not A or B, C !!!'']\<rparr>)"
  using
    get_data_from_file_label [where ps = None and f = "uniform_file ''foo-bar-C1'' ramp lesion"
      and index = "Idx 0" and x = ramp and y = lesion and ids = "''foo-bar-C1''" and decode = Inr
      and decoded = "''foo-bar-C1''" and w = quiet_world]
    get_data_from_file_label [where ps = None and f = "uniform_file ''foo-bar-A2'' ramp lesion"
      and index = "Idx 0" and x = ramp and y = lesion and ids = "''foo-bar-A2''" and decode = Inr
      and decoded = "''foo-bar-A2''" and w = quiet_world]
    get_data_from_file_label [where ps = None and f = "uniform_file ''foo-bar-B9'' ramp lesion"
      and index = "Idx 0" and x = ramp and y = lesion and ids = "''foo-bar-B9''" and decode = Inr
      and decoded = "''foo-bar-B9''" and w = quiet_world]
    get_data_from_file_label [where ps = None and f = "uniform_file ''foo-bar-Z1'' ramp lesion"
      and index = "Idx 0" and x = ramp and y = lesion and ids = "''foo-bar-Z1''" and decode = Inr
      and decoded = "''foo-bar-Z1''" and w = quiet_world]
  by (simp add: uniform_file_def py_truthy_def quiet_world_def)

text \<open>
  C10. A decoded subject id with no \<open>-\<close> in it does not fail for lack of the
  separator: the whole id is the last segment, and the label comes from the id's first
  character under the same mapping. The empty id, which has no first character, is the
  \<open>IndexError\<close> of the subscript.
\<close>

theorem get_data_from_file_no_separator:
  assumes "\<not> py_truthy ps"
    and "root_data f index = Some x" and "root_truth f index = Some y"
    and "root_subject_ids f index = Some ids" and "decode ids = Inr decoded"
    and "CHR ''-'' \<notin> set decoded"
  shows "get_data_from_file decode f index ps w =
     (case decoded of
        [] \<Rightarrow> (Inl IndexError, w)
      | c # _ \<Rightarrow>
          if c = CHR ''C'' then (Inr (x, y, 1), w)
          else if c = CHR ''A'' \<or> c = CHR ''B'' then (Inr (x, y, 0), w)
          else (Inl InvalidSubjectLabel, w\<lparr>stdout := stdout w @ [Str ''not A or B, C !!!'']\<rparr>))"
  using assms whole_volume_read [of f index x y ids decode decoded w] str_split_no_sep [OF assms(6)]
  by (simp add: get_data_from_file_def)

theorem get_data_from_file_no_separator_witness:
  "get_data_from_file Inr (uniform_file ''C17'' ramp lesion) (Idx 3) None quiet_world
     = (Inr (ramp, lesion, 1), quiet_world)
   \<and> get_data_from_file Inr (uniform_file ''B'' ramp lesion) (Idx 3) None quiet_world
     = (Inr (ramp, lesion, 0), quiet_world)
   \<and> get_data_from_file Inr (uniform_file ''subject'' ramp lesion) (Idx 3) None quiet_world
     = (Inl InvalidSubjectLabel, quiet_world\<lparr>stdout := [Str ''not A or B, C !!!'']\<rparr>)
   \<and> get_data_from_file Inr (uniform_file [] ramp lesion) (Idx 3) None quiet_world
     = (Inl IndexError, quiet_world)"
  using
    get_data_from_file_no_separator [where ps = None and f = "uniform_file ''C17'' ramp lesion"
      and index = "Idx 3" and x = ramp and y = lesion and ids = "''C17''" and decode = Inr
      and decoded = "''C17''" and w = quiet_world]
    get_data_from_file_no_separator [where ps = None and f = "uniform_file ''B'' ramp lesion"
      and index = "Idx 3" and x = ramp and y = lesion and ids = "''B''" and decode = Inr
      and decoded = "''B''" and w = quiet_world]
    get_data_from_file_no_separator [where ps = None and f = "uniform_file ''subject'' ramp lesion"
      and index = "Idx 3" and x = ramp and y = lesion and ids = "''subject''" and decode = Inr
      and decoded = "''subject''" and w = quiet_world]
    get_data_from_file_no_separator [where ps = None and f = "uniform_file [] ramp lesion"
      and index = "Idx 3" and x = ramp and y = lesion and ids = "[]" and decode = Inr
      and decoded = "[]" and w = quiet_world]
  by (simp add: uniform_file_def py_truthy_def quiet_world_def)

subsection \<open>Sample loader\<close>

text \<open>Reads of the uniform files, for the concrete instances below.\<close>

lemma read_uniform_A:
  "get_data_from_file Inr (uniform_file ''s-A1'' x y) index None w = (Inr (x, y, 0), w)"
  by (simp add: get_data_from_file_def whole_volume_def store_get_def uniform_file_def py_truthy_def)

lemma read_uniform:
  "get_data_from_file Inr (uniform_file ''s-C1'' x y) index None w = (Inr (x, y, 1), w)"
  by (simp add: get_data_from_file_def whole_volume_def store_get_def uniform_file_def py_truthy_def)

text \<open>
  C7. When the two twin-file reads of an index return different derived labels, the
  sample loader prints its three diagnostic lines and fails with
  \<open>DataConsistencyError\<close>, and both accumulators are as they were.
\<close>

theorem add_data_label_mismatch:
  assumes "get_data_from_file decode f0 index ps w = (Inr (d0, t0, l0), w0)"
    and "get_data_from_file decode f1 index ps w0 = (Inr (d1, t1, l1), w1)"
    and "l0 \<noteq> l1"
  shows "add_data decode augment_data u xl yl f0 f1 index ag af adf ps sb pm w =
           (Some DataConsistencyError, xl, yl,
            w1\<lparr>stdout := stdout w1 @ [Str ''label0 and label1 not equal !!!'', Num l0, Num l1]\<rparr>)"
  using assms by (simp add: add_data_def print_def)

theorem add_data_label_mismatch_witness:
  "add_data Inr failing_augmenter int16 ([], []) ([], [], [])
     (uniform_file ''s-A1'' ramp lesion) (uniform_file ''s-C1'' ramp lesion) (Idx 0)
     False True None None True False quiet_world
   = (Some DataConsistencyError, ([], []), ([], [], []),
      quiet_world\<lparr>stdout := [Str ''label0 and label1 not equal !!!'', Num 0, Num 1]\<rparr>)"
proof -
  have "(0::int) \<noteq> 1" by simp
  from add_data_label_mismatch [where u = int16, OF read_uniform_A read_uniform this]
  show ?thesis by (simp add: quiet_world_def)
qed

text \<open>
  C4. With permutation requested (and no augmentation), once the two reads agree on
  the label the loader fails with \<open>NameError\<close> on the name \<open>data\<close>, whatever the
  shape of the volumes, cube or not, and appends nothing: the shape test and the joint
  permutation of lines 256-259 are never reached.
\<close>

theorem add_data_permute:
  assumes "get_data_from_file decode f0 index ps w = (Inr (d0, t0, l0), w0)"
    and "get_data_from_file decode f1 index ps w0 = (Inr (d1, t1, l1), w1)"
    and "l0 = l1"
  shows "add_data decode augment_data u xl yl f0 f1 index False af adf ps sb True w =
           (Some (NameError ''data''), xl, yl, w1)"
  using assms by (simp add: add_data_def)

theorem add_data_permute_witness:
  "add_data Inr failing_augmenter int16 ([], []) ([], [], [])
     (uniform_file ''s-C1'' \<lparr>shape = [1, 2, 2, 2], elems = [1, 2, 3, 4, 5, 6, 7, 8]\<rparr> lesion)
     (uniform_file ''s-C1'' \<lparr>shape = [1, 2, 2, 2], elems = [1, 2, 3, 4, 5, 6, 7, 8]\<rparr> lesion)
     (Idx 0) False True None None True True quiet_world
   = (Some (NameError ''data''), ([], []), ([], [], []), quiet_world)
   \<and> add_data Inr failing_augmenter int16 ([], []) ([], [], [])
     (uniform_file ''s-C1'' \<lparr>shape = [1, 2, 2, 3], elems = [1, 2, 3, 4, 5, 6, 7, 8, 9, 10, 11, 12]\<rparr> lesion)
     (uniform_file ''s-C1'' \<lparr>shape = [1, 2, 2, 3], elems = [1, 2, 3, 4, 5, 6, 7, 8, 9, 10, 11, 12]\<rparr> lesion)
     (Idx 0) False True None None True True quiet_world
   = (Some (NameError ''data''), ([], []), ([], [], []), quiet_world)"
  using add_data_permute [where u = int16, OF read_uniform read_uniform refl]
  by simp

lemma min_max_normalize_nonempty:
  "elems d \<noteq> [] \<Longrightarrow> \<exists>n. min_max_normalize u d = Inr n"
  by (cases "elems d") (simp_all add: min_max_normalize_def amin_def amax_def)

text \<open>
  C8. Without augmentation or permutation, for a sample whose two reads succeed with
  the same label and whose image volumes have at least one element: if \<open>skip_blank\<close>
  is false or one of the two truth volumes has a nonzero voxel, exactly one sample is
  appended to each accumulator list; otherwise nothing is appended and no error is
  raised. This holds whatever the arithmetic of the volumes is.
\<close>

theorem add_data_blank_filter:
  assumes "get_data_from_file decode f0 index ps w = (Inr (d0, t0, l0), w0)"
    and "get_data_from_file decode f1 index ps w0 = (Inr (d1, t1, l1), w1)"
    and "l0 = l1"
    and "elems d0 \<noteq> []" and "elems d1 \<noteq> []"
  shows "if \<not> sb \<or> (\<exists>v\<in>set (elems t0). v \<noteq> 0) \<or> (\<exists>v\<in>set (elems t1). v \<noteq> 0)
         then \<exists>n0 n1.
                add_data decode augment_data u xl yl f0 f1 index False af adf ps sb False w =
                  (None, (fst xl @ [n0], snd xl @ [n1]),
                   (fst yl @ [l0], fst (snd yl) @ [newaxis t0], snd (snd yl) @ [newaxis t1]), w1)
         else add_data decode augment_data u xl yl f0 f1 index False af adf ps sb False w =
                (None, xl, yl, w1)"
proof -
  obtain n0 where n0: "min_max_normalize u d0 = Inr n0"
    using min_max_normalize_nonempty [OF assms(4)] by blast
  obtain n1 where n1: "min_max_normalize u d1 = Inr n1"
    using min_max_normalize_nonempty [OF assms(5)] by blast
  show ?thesis
    using assms(1-3) n0 n1
    by (simp add: add_data_def Let_def np_any_nonzero_def newaxis_def list_ex_iff)
qed

theorem add_data_blank_filter_witness:
  "(\<exists>n0 n1. add_data Inr failing_augmenter int16 ([], []) ([], [], [])
       (uniform_file ''s-A1'' ramp blank) (uniform_file ''s-A1'' ramp blank) (Idx 0)
       False True None None False False quiet_world
     = (None, ([n0], [n1]), ([0], [newaxis blank], [newaxis blank]), quiet_world))
   \<and> add_data Inr failing_augmenter int16 ([], []) ([], [], [])
       (uniform_file ''s-A1'' ramp blank) (uniform_file ''s-A1'' ramp blank) (Idx 0)
       False True None None True False quiet_world
     = (None, ([], []), ([], [], []), quiet_world)
   \<and> (\<exists>n0 n1. add_data Inr failing_augmenter int16 ([], []) ([], [], [])
       (uniform_file ''s-A1'' ramp blank) (uniform_file ''s-A1'' ramp lesion) (Idx 0)
       False True None None True False quiet_world
     = (None, ([n0], [n1]), ([0], [newaxis blank], [newaxis lesion]), quiet_world))"
proof -
  have ne: "elems ramp \<noteq> []" by (simp add: ramp_def)
  note r = read_uniform_A [where index = "Idx 0" and w = quiet_world]
  note t = add_data_blank_filter [OF r r refl ne ne,
      where xl = "([], [])" and yl = "([], [], [])" and augment_data = failing_augmenter
        and af = True and adf = None and u = int16]
  show ?thesis
    using t [where sb = False and ?t0.0 = blank and ?t1.0 = blank]
      t [where sb = True and ?t0.0 = blank and ?t1.0 = blank]
      t [where sb = True and ?t0.0 = blank and ?t1.0 = lesion]
    by (simp add: blank_def lesion_def)
qed

text \<open>
  An image volume with no voxel is not covered: taking its minimum raises
  \<open>ValueError\<close>, so a sample that passes the filter (\<open>skip_blank\<close> false, or a
  nonzero truth voxel) is not appended.
\<close>

theorem add_data_empty_volume:
  "add_data Inr failing_augmenter int16 ([], []) ([], [], [])
     (uniform_file ''s-C1'' hollow \<lparr>shape = [0, 2], elems = []\<rparr>)
     (uniform_file ''s-C1'' hollow \<lparr>shape = [0, 2], elems = []\<rparr>) (Idx 0)
     False True None None False False quiet_world
   = (Some ValueError, ([], []), ([], [], []), quiet_world)
   \<and> add_data Inr failing_augmenter int16 ([], []) ([], [], [])
     (uniform_file ''s-C1'' hollow lesion) (uniform_file ''s-C1'' hollow lesion) (Idx 0)
     False True None None True False quiet_world
   = (Some ValueError, ([], []), ([], [], []), quiet_world)"
  by (simp add: add_data_def read_uniform min_max_normalize_def amin_def hollow_def
      np_any_nonzero_def newaxis_def lesion_def)
















lemma signed_rat: "(signed x :: rat) = of_int (sint x)"
  by simp

lemma signed_le_iff: "((signed x :: rat) \<le> signed y) = (sint x \<le> sint y)"
  unfolding signed_rat by (simp del: of_int_sint)



lemma normalize_ramp: "min_max_normalize int16 ramp = Inr ramp_scaled"
  by code_simp

lemma normalize_flat: "min_max_normalize int16 flat = Inr flat_zero"
  by code_simp

lemma add_data_uniform:
  "add_data Inr aug int16 xl yl (uniform_file ''s-C1'' ramp lesion)
     (uniform_file ''s-C1'' flat lesion) index False af adf None sb False w
   = (None, (fst xl @ [ramp_scaled], snd xl @ [flat_zero]),
      (fst yl @ [1], fst (snd yl) @ [newaxis lesion], snd (snd yl) @ [newaxis lesion]), w)"
  by (simp add: add_data_def read_uniform normalize_ramp normalize_flat np_any_nonzero_def
      newaxis_def lesion_def)




subsection \<open>Batch assembler\<close>

lemma convert_data_multi_class_fails:
  "1 < n \<Longrightarrow> convert_data xl yl n ls = Inl AttributeError \<or> convert_data xl yl n ls = Inl ValueError"
  by (simp add: convert_data_def get_multi_class_labels_def asarray_def Let_def
      split: sum.splits list.splits)

text \<open>
  C6. With more than one label the batch assembler never returns an encoded batch:
  line 350 passes the whole list \<^verbatim>\<open>y\<close> (three arrays) to the encoder, whose first
  statement reads \<^verbatim>\<open>data.shape\<close>, so the call ends in \<open>AttributeError\<close> (or, before
  that, in the \<open>ValueError\<close> of a ragged accumulator list). No truth array is
  replaced by an array of shape (N, n_labels, ...).
\<close>

theorem convert_data_multi_class:
  assumes "1 < n"
  shows "convert_data xl yl n ls =
           (if asarray (fst xl) = Inl ValueError \<or> asarray (snd xl) = Inl ValueError
               \<or> asarray (fst (snd yl)) = Inl ValueError \<or> asarray (snd (snd yl)) = Inl ValueError
            then Inl ValueError else Inl AttributeError)"
  using assms
  by (auto simp: convert_data_def get_multi_class_labels_def asarray_def Let_def
      split: sum.splits list.splits if_splits)

theorem convert_data_multi_class_witness:
  "convert_data ([ramp_scaled, ramp_scaled, ramp_scaled], [flat_zero, flat_zero, flat_zero])
     ([1, 1, 1], [newaxis lesion, newaxis lesion, newaxis blank],
      [newaxis lesion, newaxis blank, newaxis lesion]) 2 (Some [1, 2])
   = Inl AttributeError"
  using convert_data_multi_class [of 2
      "([ramp_scaled, ramp_scaled, ramp_scaled], [flat_zero, flat_zero, flat_zero])"
      "([1, 1, 1], [newaxis lesion, newaxis lesion, newaxis blank],
        [newaxis lesion, newaxis blank, newaxis lesion])" "Some [1, 2]"]
  by (simp add: asarray_def newaxis_def lesion_def blank_def ramp_scaled_def flat_zero_def)

text \<open>
  With one label the batch assembler turns every truth voxel greater than 0 into 1 and
  leaves every other voxel as it is; the images and the derived labels are the
  accumulated lists as arrays.
\<close>

theorem convert_data_binarize:
  assumes "asarray (fst xl) = Inr x0" and "asarray (snd xl) = Inr x1"
    and "asarray (fst (snd yl)) = Inr y1" and "asarray (snd (snd yl)) = Inr y2"
  shows "convert_data xl yl 1 ls =
           Inr ((x0, x1),
                PyList [asarray_scalars (fst yl),
                        y1\<lparr>elems := map (\<lambda>v. if 0 < v then 1 else v) (elems y1)\<rparr>,
                        y2\<lparr>elems := map (\<lambda>v. if 0 < v then 1 else v) (elems y2)\<rparr>])"
  using assms by (simp add: convert_data_def binarize_def)

theorem convert_data_binarize_witness:
  "convert_data ([ramp_scaled], [flat_zero]) ([1], [newaxis lesion], [newaxis blank]) 1 None
   = Inr ((\<lparr>shape = [1, 1, 2, 2], elems = elems ramp_scaled\<rparr>,
           \<lparr>shape = [1, 1, 2, 2], elems = elems flat_zero\<rparr>),
          PyList [\<lparr>shape = [1], elems = [1]\<rparr>,
                  \<lparr>shape = [1, 1, 2, 2], elems = [0, 1, 0, 0]\<rparr>,
                  \<lparr>shape = [1, 1, 2, 2], elems = [0, 0, 0, 0]\<rparr>])"
  using convert_data_binarize [of "([ramp_scaled], [flat_zero])"
      "\<lparr>shape = [1, 1, 2, 2], elems = elems ramp_scaled\<rparr>"
      "\<lparr>shape = [1, 1, 2, 2], elems = elems flat_zero\<rparr>"
      "([1], [newaxis lesion], [newaxis blank])"
      "\<lparr>shape = [1, 1, 2, 2], elems = [0, 2, 0, 0]\<rparr>"
      "\<lparr>shape = [1, 1, 2, 2], elems = [0, 0, 0, 0]\<rparr>" None]
  by (simp add: asarray_def asarray_scalars_def ramp_scaled_def flat_zero_def lesion_def
      blank_def newaxis_def)

text \<open>Row-major positions: sample \<open>i\<close>, channel \<open>k\<close> and offset \<open>s\<close> of an array of
  shape \<open>n # l # rest\<close>.\<close>

lemma chunk_index_less:
  fixes i n sz s :: nat
  assumes "i < n" and "s < sz"
  shows "i * sz + s < n * sz"
proof -
  have "i * sz + s < i * sz + sz" using assms(2) by simp
  also have "\<dots> = Suc i * sz" by simp
  also have "\<dots> \<le> n * sz" using assms(1) by (intro mult_le_mono1) simp
  finally show ?thesis .
qed

lemma length_concat_chunks:
  assumes "\<And>j. j < n \<Longrightarrow> length (f j) = sz"
  shows "length (concat (map f [0..<n])) = n * sz"
  using assms by (induction n) simp_all

lemma nth_concat_chunks:
  assumes "\<And>j. j < n \<Longrightarrow> length (f j) = sz" and "i < n" and "s < sz"
  shows "concat (map f [0..<n]) ! (i * sz + s) = f i ! s"
  using assms
proof (induction n arbitrary: i)
  case 0
  then show ?case by simp
next
  case (Suc n)
  have len: "length (concat (map f [0..<n])) = n * sz"
    using Suc.prems(1) by (intro length_concat_chunks) simp
  show ?case
  proof (cases "i < n")
    case True
    then have "i * sz + s < n * sz" using Suc.prems(3) by (rule chunk_index_less)
    then show ?thesis using Suc.IH [of i] Suc.prems True by (simp add: nth_append len)
  next
    case False
    with Suc.prems(2) have "i = n" by simp
    then show ?thesis using Suc.prems by (simp add: nth_append len)
  qed
qed

lemma channel0_nth:
  assumes sh: "shape a = n # c # rest" and c: "0 < c"
    and len: "length (elems a) = n * c * prod_list rest"
  shows "\<exists>ch. channel0 a = Inr ch \<and> length ch = n * prod_list rest
           \<and> (\<forall>i<n. \<forall>s<prod_list rest.
                 ch ! (i * prod_list rest + s) = elems a ! (i * c * prod_list rest + s))"
proof -
  let ?sz = "prod_list rest"
  let ?f = "\<lambda>i. take ?sz (drop (i * c * ?sz) (elems a))"
  have fl: "length (?f j) = ?sz" if "j < n" for j
  proof -
    have "j * c + 1 \<le> n * c"
    proof -
      have "j * c + c \<le> n * c" using that by (metis Suc_leI mult_Suc mult_le_mono1 add.commute)
      then show ?thesis using c by simp
    qed
    then have "(j * c + 1) * ?sz \<le> n * c * ?sz" by (rule mult_le_mono1)
    then have "j * c * ?sz + ?sz \<le> length (elems a)" by (simp add: len add_mult_distrib)
    then show ?thesis by simp
  qed
  have nth: "?f i ! s = elems a ! (i * c * ?sz + s)" if "i < n" "s < ?sz" for i s
  proof -
    have "i * c + 1 \<le> n * c"
    proof -
      have "i * c + c \<le> n * c" using that(1) by (metis Suc_leI mult_Suc mult_le_mono1 add.commute)
      then show ?thesis using c by simp
    qed
    then have "(i * c + 1) * ?sz \<le> n * c * ?sz" by (rule mult_le_mono1)
    then have "i * c * ?sz + ?sz \<le> length (elems a)" by (simp add: len add_mult_distrib)
    then show ?thesis using that(2) by simp
  qed
  have "channel0 a = Inr (concat (map ?f [0..<n]))"
    using sh c by (simp add: channel0_def)
  moreover have "length (concat (map ?f [0..<n])) = n * ?sz"
    using fl by (rule length_concat_chunks)
  moreover have "concat (map ?f [0..<n]) ! (i * ?sz + s) = elems a ! (i * c * ?sz + s)"
    if "i < n" "s < ?sz" for i s
    using nth_concat_chunks [of n ?f ?sz i s] fl nth that by simp
  ultimately show ?thesis by blast
qed

lemma assign_channel_nth:
  assumes "shape y = n # l # rest"
  shows "shape (assign_channel y k m) = shape y"
    and "length (elems (assign_channel y k m)) = length (elems y)"
    and "p < length (elems y) \<Longrightarrow>
           elems (assign_channel y k m) ! p =
             (if (p div prod_list rest) mod l = k
                 \<and> m ! ((p div (l * prod_list rest)) * prod_list rest + p mod prod_list rest)
              then 1 else elems y ! p)"
  using assms by (simp_all add: assign_channel_def Let_def)

lemma label_loop_inv:
  assumes ch: "channel0 a = Inr ch" and chl: "length ch = n * prod_list rest"
    and sh: "shape y = n # l # rest" and yl: "length (elems y) = n * l * prod_list rest"
    and lv: "\<forall>k\<in>set ks. label_value lbls k = Inr (label_of lbls k)"
  shows "\<exists>y'. label_loop ks a lbls y = Inr y' \<and> shape y' = shape y
           \<and> length (elems y') = length (elems y)
           \<and> (\<forall>p<length (elems y).
                 elems y' ! p =
                   (if (p div prod_list rest) mod l \<in> set ks
                       \<and> ch ! ((p div (l * prod_list rest)) * prod_list rest + p mod prod_list rest)
                           = label_of lbls ((p div prod_list rest) mod l)
                    then 1 else elems y ! p))"
  using sh yl lv
proof (induction ks arbitrary: y)
  case Nil
  show ?case by simp
next
  case (Cons k ks)
  let ?sz = "prod_list rest"
  let ?m = "map (\<lambda>d. d = label_of lbls k) ch"
  let ?y1 = "assign_channel y k ?m"
  note ac = assign_channel_nth [OF Cons.prems(1), where k = k and m = ?m]
  have sh1: "shape ?y1 = n # l # rest" using ac(1) Cons.prems(1) by simp
  have yl1: "length (elems ?y1) = n * l * ?sz" using ac(2) Cons.prems(2) by simp
  have lv1: "\<forall>k\<in>set ks. label_value lbls k = Inr (label_of lbls k)"
    using Cons.prems(3) by simp
  from Cons.IH [OF sh1 yl1 lv1]
  obtain y' where r: "label_loop ks a lbls ?y1 = Inr y'"
    and s': "shape y' = shape ?y1" and l': "length (elems y') = length (elems ?y1)"
    and e': "\<forall>p<length (elems ?y1).
                 elems y' ! p =
                   (if (p div ?sz) mod l \<in> set ks
                       \<and> ch ! ((p div (l * ?sz)) * ?sz + p mod ?sz)
                           = label_of lbls ((p div ?sz) mod l)
                    then 1 else elems ?y1 ! p)"
    by blast
  have step: "label_loop (k # ks) a lbls y = label_loop ks a lbls ?y1"
    using ch Cons.prems(3) by simp
  have el: "elems y' ! p =
              (if (p div ?sz) mod l \<in> set (k # ks)
                  \<and> ch ! ((p div (l * ?sz)) * ?sz + p mod ?sz)
                      = label_of lbls ((p div ?sz) mod l)
               then 1 else elems y ! p)" if p: "p < length (elems y)" for p
  proof -
    have pl: "p < n * l * ?sz" using p Cons.prems(2) by simp
    then have szp: "0 < ?sz" by (cases "?sz = 0") simp_all
    have "p < n * (l * ?sz)" using pl by (simp only: mult.assoc)
    then have "p div (l * ?sz) < n" by (rule less_mult_imp_div_less)
    moreover have "p mod ?sz < ?sz" using szp by simp
    ultimately have q: "(p div (l * ?sz)) * ?sz + p mod ?sz < length ch"
      unfolding chl by (rule chunk_index_less)
    have "elems y' ! p =
            (if (p div ?sz) mod l \<in> set ks
                \<and> ch ! ((p div (l * ?sz)) * ?sz + p mod ?sz)
                    = label_of lbls ((p div ?sz) mod l)
             then 1 else elems ?y1 ! p)"
      using e' p ac(2) by simp
    moreover have "elems ?y1 ! p =
            (if (p div ?sz) mod l = k
                \<and> ch ! ((p div (l * ?sz)) * ?sz + p mod ?sz) = label_of lbls k
             then 1 else elems y ! p)"
      using ac(3) [OF p] q by simp
    ultimately show ?thesis by auto
  qed
  show ?case
    using step r s' l' ac(1,2) el by simp
qed

lemma flat_index:
  fixes i l k sz s :: nat
  assumes "k < l" and "s < sz"
  shows "((i * l + k) * sz + s) div sz = i * l + k"
    and "((i * l + k) * sz + s) mod sz = s"
    and "(((i * l + k) * sz + s) div sz) mod l = k"
    and "((i * l + k) * sz + s) div (l * sz) = i"
proof -
  let ?p = "(i * l + k) * sz + s"
  show d: "?p div sz = i * l + k" using assms(2) by simp
  show "?p mod sz = s" using assms(2) by simp
  show "(?p div sz) mod l = k" using d assms(1) by simp
  have "?p div (sz * l) = (?p div sz) div l" by (rule div_mult2_eq)
  then show "?p div (l * sz) = i" using d assms(1) by (simp add: mult.commute)
qed

text \<open>
  The encoder on an array. For a truth array of shape \<open>n # c # rest\<close> with at least
  one channel, a label count that is not negative and a label list, if one is given, at
  least that long, the encoder returns an array of shape \<open>n # n_labels # rest\<close> whose
  channel \<open>k\<close> is 1 exactly where channel 0 of the input equals label \<open>k\<close>, and 0
  elsewhere. (The batch assembler never calls it so: it passes a list.)
\<close>

theorem get_multi_class_labels_array:
  assumes sh: "shape a = n # c # rest" and c: "0 < c"
    and len: "length (elems a) = n * c * prod_list rest"
    and nl: "0 \<le> nl"
    and lab: "case lbls of None \<Rightarrow> True | Some ls \<Rightarrow> nat nl \<le> length ls"
  shows "\<exists>y. get_multi_class_labels (PyArray a) nl lbls = Inr y
           \<and> shape y = n # nat nl # rest
           \<and> length (elems y) = n * nat nl * prod_list rest
           \<and> (\<forall>i<n. \<forall>k<nat nl. \<forall>s<prod_list rest.
                 elems y ! ((i * nat nl + k) * prod_list rest + s) =
                   (if elems a ! (i * c * prod_list rest + s)
                        = (case lbls of None \<Rightarrow> int k + 1 | Some ls \<Rightarrow> ls ! k)
                    then 1 else 0))"
proof -
  let ?sz = "prod_list rest" and ?l = "nat nl"
  let ?y0 = "np_zeros ([n, ?l] @ drop 2 (shape a))"
  from channel0_nth [OF sh c len] obtain ch where
    ch: "channel0 a = Inr ch" and chl: "length ch = n * ?sz"
    and chn: "\<forall>i<n. \<forall>s<?sz. ch ! (i * ?sz + s) = elems a ! (i * c * ?sz + s)"
    by blast
  have sh0: "shape ?y0 = n # ?l # rest" using sh by (simp add: np_zeros_def)
  have yl0: "length (elems ?y0) = n * ?l * ?sz" using sh by (simp add: np_zeros_def)
  have lv: "\<forall>k\<in>set [0..<?l]. label_value lbls k = Inr (label_of lbls k)"
    using lab by (auto simp: label_value_def label_of_def split: option.splits)
  from label_loop_inv [OF ch chl sh0 yl0 lv]
  obtain y where r: "label_loop [0..<?l] a lbls ?y0 = Inr y"
    and s': "shape y = shape ?y0" and l': "length (elems y) = length (elems ?y0)"
    and e': "\<forall>p<length (elems ?y0).
                 elems y ! p =
                   (if (p div ?sz) mod ?l \<in> set [0..<?l]
                       \<and> ch ! ((p div (?l * ?sz)) * ?sz + p mod ?sz)
                           = label_of lbls ((p div ?sz) mod ?l)
                    then 1 else elems ?y0 ! p)"
    by blast
  have g: "get_multi_class_labels (PyArray a) nl lbls = Inr y"
    using sh nl r by (simp add: get_multi_class_labels_def)
  have el: "elems y ! ((i * ?l + k) * ?sz + s) =
              (if elems a ! (i * c * ?sz + s)
                   = (case lbls of None \<Rightarrow> int k + 1 | Some ls \<Rightarrow> ls ! k)
               then 1 else 0)"
    if i: "i < n" and k: "k < ?l" and s: "s < ?sz" for i k s
  proof -
    let ?p = "(i * ?l + k) * ?sz + s"
    have "i * ?l + k < n * ?l" using i k by (rule chunk_index_less)
    then have p: "?p < n * ?l * ?sz" using s by (rule chunk_index_less)
    have "elems ?y0 = replicate (n * ?l * ?sz) 0" using sh by (simp add: np_zeros_def mult.assoc)
    then have z: "elems ?y0 ! ?p = 0" using p by simp
    note fi = flat_index [OF k s, of i]
    have "elems y ! ?p =
            (if ch ! (i * ?sz + s) = label_of lbls k then 1 else 0)"
      using e' p yl0 z k fi by simp
    then show ?thesis using chn i s by (simp add: label_of_def)
  qed
  show ?thesis using g s' sh0 l' yl0 el by simp
qed

theorem get_multi_class_labels_array_witness:
  "get_multi_class_labels (PyArray \<lparr>shape = [2, 1, 2], elems = [0, 1, 2, 1]\<rparr>) 2 (Some [1, 2])
     = Inr \<lparr>shape = [2, 2, 2], elems = [0, 1, 0, 0, 0, 1, 1, 0]\<rparr>"
proof -
  let ?a = "\<lparr>shape = [2, 1, 2], elems = [0, 1, 2, 1 :: int]\<rparr>"
  have e: "get_multi_class_labels (PyArray ?a) 2 (Some [1, 2])
     = Inr \<lparr>shape = [2, 2, 2], elems = [0, 1, 0, 0, 0, 1, 1, 0]\<rparr>"
    by code_simp
  from get_multi_class_labels_array [of ?a 2 1 "[2]" 2 "Some [1, 2]"] e
  show ?thesis by simp
qed

subsection \<open>Data generator\<close>

lemma pop_loop_multi_class:
  "1 < n_labels a \<Longrightarrow> fst (pop_loop decode augment_data u f0 f1 a il xl yl w) = []"
proof (induction il arbitrary: xl yl w)
  case Nil
  show ?case by simp
next
  case (Cons i il)
  obtain e xl' yl' w' where ad:
    "add_data decode augment_data u xl yl f0 f1 i (augment a) (augment_flip a)
       (augment_distortion_factor a) (patch_shape a) (skip_blank a) (permute a) w = (e, xl', yl', w')"
    by (metis prod_cases4)
  from convert_data_multi_class_fails [OF Cons.prems, of xl' yl' "labels a"]
  obtain err where cd: "convert_data xl' yl' (n_labels a) (labels a) = Inl err" by blast
  show ?case
    using ad cd Cons.IH [OF Cons.prems]
    by (cases e) (simp_all del: add_data_def)
qed

lemma data_generator_multi_class_run:
  "data_generator Inr failing_augmenter int16 (uniform_file ''s-C1'' ramp lesion)
     (uniform_file ''s-C1'' flat lesion) (map Idx [0, 1, 2, 3, 4, 5, 6])
     (default_kwargs\<lparr>batch_size := 3, n_labels := 2\<rparr>) 1 quiet_world
   = ([], Some AttributeError, quiet_world)"
  by (simp add: epoch_def default_kwargs_def py_truthy_def add_data_uniform convert_data_def
      asarray_def get_multi_class_labels_def newaxis_def ramp_scaled_def flat_zero_def)

text \<open>
  C5. With more than one label the generator yields no batch at all, however many
  passes it makes and whatever the index list and batch size: every yield goes through
  the batch assembler, which fails as above. The batches of sizes 3, 3 and 1 are
  yielded when the label count is at most one, as proved further below.
\<close>

theorem data_generator_multi_class:
  assumes "1 < n_labels a"
  shows "fst (data_generator decode augment_data u f0 f1 index_list a k w) = []"
proof (induction k arbitrary: w)
  case 0
  show ?case by simp
next
  case (Suc k)
  have ep: "fst (epoch decode augment_data u f0 f1 index_list a w) = []"
    using pop_loop_multi_class [where u = u, OF assms]
    by (simp add: epoch_def split: prod.splits)
  obtain bs e w' where r: "epoch decode augment_data u f0 f1 index_list a w = (bs, e, w')"
    by (metis prod_cases3)
  with ep have "bs = []" by simp
  with r Suc.IH [of w'] show ?case
    by (cases e) (simp_all split: prod.splits)
qed

theorem data_generator_multi_class_witness:
  "fst (data_generator Inr failing_augmenter int16 (uniform_file ''s-C1'' ramp lesion)
     (uniform_file ''s-C1'' flat lesion) (map Idx [0, 1, 2, 3, 4, 5, 6])
     (default_kwargs\<lparr>batch_size := 3, n_labels := 2\<rparr>) 1 quiet_world) = []
   \<and> data_generator Inr failing_augmenter int16 (uniform_file ''s-C1'' ramp lesion)
     (uniform_file ''s-C1'' flat lesion) (map Idx [0, 1, 2, 3, 4, 5, 6])
     (default_kwargs\<lparr>batch_size := 3, n_labels := 2\<rparr>) 1 quiet_world
   = ([], Some AttributeError, quiet_world)"
proof -
  have "1 < n_labels (default_kwargs\<lparr>batch_size := 3, n_labels := 2\<rparr>)" by simp
  from data_generator_multi_class [where u = int16, OF this] data_generator_multi_class_run
  show ?thesis by simp
qed

lemma asarray_uniform:
  "list_all (\<lambda>v. shape v = s) xs \<Longrightarrow> \<exists>r. asarray xs = Inr r"
  by (cases xs) (auto simp: asarray_def list_all_iff)

lemma convert_data_uniform:
  assumes "n \<le> 1"
    and "list_all (\<lambda>v. shape v = s0) (fst xl)" and "list_all (\<lambda>v. shape v = s1) (snd xl)"
    and "list_all (\<lambda>v. shape v = s2) (fst (snd yl))" and "list_all (\<lambda>v. shape v = s3) (snd (snd yl))"
  shows "\<exists>b. convert_data xl yl n ls = Inr b \<and> batch_len b = length (fst yl)"
proof -
  obtain x0 x1 y1 y2 where
    "asarray (fst xl) = Inr x0" "asarray (snd xl) = Inr x1"
    "asarray (fst (snd yl)) = Inr y1" "asarray (snd (snd yl)) = Inr y2"
    using asarray_uniform [OF assms(2)] asarray_uniform [OF assms(3)]
      asarray_uniform [OF assms(4)] asarray_uniform [OF assms(5)] by blast
  then show ?thesis using assms(1)
    by (simp add: convert_data_def Let_def batch_len_def asarray_scalars_def)
qed

lemma pop_loop_regular:
  assumes n: "n_labels a \<le> 1"
    and H: "\<And>index xl yl w. index \<in> set il \<Longrightarrow>
          \<exists>n0 n1 l t0 t1 w'.
            add_data decode augment_data u xl yl f0 f1 index (augment a) (augment_flip a)
              (augment_distortion_factor a) (patch_shape a) (skip_blank a) (permute a) w
            = (None, (fst xl @ [n0], snd xl @ [n1]),
               (fst yl @ [l], fst (snd yl) @ [t0], snd (snd yl) @ [t1]), w')
            \<and> shape n0 = s0 \<and> shape n1 = s1 \<and> shape t0 = s2 \<and> shape t1 = s3"
    and reg: "list_all (\<lambda>v. shape v = s0) (fst xl)" "list_all (\<lambda>v. shape v = s1) (snd xl)"
      "list_all (\<lambda>v. shape v = s2) (fst (snd yl))" "list_all (\<lambda>v. shape v = s3) (snd (snd yl))"
  shows "\<exists>bs w'. pop_loop decode augment_data u f0 f1 a il xl yl w = (bs, None, w')
           \<and> map batch_len bs = chunk_sizes (batch_size a) (length (fst yl)) (length il)"
  using H reg
proof (induction il arbitrary: xl yl w)
  case Nil
  show ?case by simp
next
  case (Cons i il)
  have "i \<in> set (i # il)" by simp
  from Cons.prems(1) [OF this, of xl yl w]
  obtain n0 n1 l t0 t1 w' where
    ad: "add_data decode augment_data u xl yl f0 f1 i (augment a) (augment_flip a)
              (augment_distortion_factor a) (patch_shape a) (skip_blank a) (permute a) w
            = (None, (fst xl @ [n0], snd xl @ [n1]),
               (fst yl @ [l], fst (snd yl) @ [t0], snd (snd yl) @ [t1]), w')"
    and sh: "shape n0 = s0" "shape n1 = s1" "shape t0 = s2" "shape t1 = s3"
    by blast
  let ?xl = "(fst xl @ [n0], snd xl @ [n1])"
  let ?yl = "(fst yl @ [l], fst (snd yl) @ [t0], snd (snd yl) @ [t1])"
  have H': "\<And>index xl yl w. index \<in> set il \<Longrightarrow>
          \<exists>n0 n1 l t0 t1 w'.
            add_data decode augment_data u xl yl f0 f1 index (augment a) (augment_flip a)
              (augment_distortion_factor a) (patch_shape a) (skip_blank a) (permute a) w
            = (None, (fst xl @ [n0], snd xl @ [n1]),
               (fst yl @ [l], fst (snd yl) @ [t0], snd (snd yl) @ [t1]), w')
            \<and> shape n0 = s0 \<and> shape n1 = s1 \<and> shape t0 = s2 \<and> shape t1 = s3"
    using Cons.prems(1) by simp
  have reg': "list_all (\<lambda>v. shape v = s0) (fst ?xl)" "list_all (\<lambda>v. shape v = s1) (snd ?xl)"
      "list_all (\<lambda>v. shape v = s2) (fst (snd ?yl))" "list_all (\<lambda>v. shape v = s3) (snd (snd ?yl))"
    using Cons.prems(2-5) sh by simp_all
  show ?case
  proof (cases "int (Suc (length (fst yl))) = batch_size a \<or> il = []")
    case True
    from convert_data_uniform [OF n reg', of "labels a"]
    obtain b where cd: "convert_data ?xl ?yl (n_labels a) (labels a) = Inr b"
      and bl: "batch_len b = Suc (length (fst yl))" by auto
    let ?x0 = "([], []) :: ('a, 'b) x_list" and ?y0 = "([], [], []) :: y_list"
    have "list_all (\<lambda>v. shape v = s0) (fst ?x0)" "list_all (\<lambda>v. shape v = s1) (snd ?x0)"
      "list_all (\<lambda>v. shape v = s2) (fst (snd ?y0))"
      "list_all (\<lambda>v. shape v = s3) (snd (snd ?y0))"
      by simp_all
    from Cons.IH [OF H' this, of w']
    obtain bs w'' where
      rest: "pop_loop decode augment_data u f0 f1 a il ([], []) ([], [], []) w' = (bs, None, w'')"
      and sz: "map batch_len bs = chunk_sizes (batch_size a) 0 (length il)" by auto
    show ?thesis using True ad cd bl rest sz by auto
  next
    case False
    from Cons.IH [OF H' reg', of w']
    obtain bs w'' where
      rest: "pop_loop decode augment_data u f0 f1 a il ?xl ?yl w' = (bs, None, w'')"
      and sz: "map batch_len bs = chunk_sizes (batch_size a) (Suc (length (fst yl))) (length il)" by auto
    show ?thesis using False ad rest sz by auto
  qed
qed

lemma chunk_sizes_7_3: "chunk_sizes 3 0 7 = [3, 3, 1]"
  by (simp add: numeral_eq_Suc)

lemma epoch_batches:
  assumes len: "length index_list = 7" and bsz: "batch_size a = 3"
    and nops: "\<not> py_truthy (patch_shape a)" and n: "n_labels a \<le> 1"
    and H: "\<And>index xl yl w. index \<in> set index_list \<Longrightarrow>
          \<exists>n0 n1 l t0 t1 w'.
            add_data decode augment_data u xl yl f0 f1 index (augment a) (augment_flip a)
              (augment_distortion_factor a) (patch_shape a) (skip_blank a) (permute a) w
            = (None, (fst xl @ [n0], snd xl @ [n1]),
               (fst yl @ [l], fst (snd yl) @ [t0], snd (snd yl) @ [t1]), w')
            \<and> shape n0 = s0 \<and> shape n1 = s1 \<and> shape t0 = s2 \<and> shape t1 = s3"
  shows "\<exists>bs w'. epoch decode augment_data u f0 f1 index_list a w = (bs, None, w')
           \<and> map batch_len bs = [3, 3, 1]"
proof -
  obtain il w1 where sh:
    "(if shuffle_index_list a then shuffle index_list w else (index_list, w)) = (il, w1)"
    by (metis surj_pair)
  have il: "set (rev il) = set index_list" "length (rev il) = 7"
    using sh len shuffle_set [of index_list w] shuffle_length [of index_list w]
    by (auto split: if_splits)
  let ?x0 = "([], []) :: ('a, 'b) x_list" and ?y0 = "([], [], []) :: y_list"
  have reg: "list_all (\<lambda>v. shape v = s0) (fst ?x0)" "list_all (\<lambda>v. shape v = s1) (snd ?x0)"
      "list_all (\<lambda>v. shape v = s2) (fst (snd ?y0))"
      "list_all (\<lambda>v. shape v = s3) (snd (snd ?y0))"
    by simp_all
  have H': "\<And>index xl yl w. index \<in> set (rev il) \<Longrightarrow>
          \<exists>n0 n1 l t0 t1 w'.
            add_data decode augment_data u xl yl f0 f1 index (augment a) (augment_flip a)
              (augment_distortion_factor a) (patch_shape a) (skip_blank a) (permute a) w
            = (None, (fst xl @ [n0], snd xl @ [n1]),
               (fst yl @ [l], fst (snd yl) @ [t0], snd (snd yl) @ [t1]), w')
            \<and> shape n0 = s0 \<and> shape n1 = s1 \<and> shape t0 = s2 \<and> shape t1 = s3"
    using H il(1) by simp
  from pop_loop_regular [where a = a and il = "rev il" and decode = decode
      and augment_data = augment_data and u = u and ?f0.0 = f0 and ?f1.0 = f1
      and ?s0.0 = s0 and ?s1.0 = s1
      and ?s2.0 = s2 and ?s3.0 = s3 and xl = ?x0 and yl = ?y0 and w = w1, OF n H' reg]
  obtain bs w' where
    "pop_loop decode augment_data u f0 f1 a (rev il) ?x0 ?y0 w1 = (bs, None, w')"
    "map batch_len bs = chunk_sizes (batch_size a) 0 (length (rev il))"
    by auto
  then show ?thesis
    using sh nops bsz il(2) chunk_sizes_7_3 by (simp add: epoch_def)
qed

text \<open>
  Batching when the batch assembler succeeds. For an index list of length 7, batch size
  3, no patch shape, at most one label, and every index yielding one sample (of one
  shape per accumulator list) from any state of the accumulators: every pass of the
  outer loop yields exactly three batches, of sizes 3, 3 and 1 in that order, with or
  without shuffling; the accumulators start empty after each yield; and the generator
  goes on for as many passes as are asked of it, without an error.
\<close>

theorem data_generator_batches:
  assumes len: "length index_list = 7" and bsz: "batch_size a = 3"
    and nops: "\<not> py_truthy (patch_shape a)" and n: "n_labels a \<le> 1"
    and H: "\<And>index xl yl w. index \<in> set index_list \<Longrightarrow>
          \<exists>n0 n1 l t0 t1 w'.
            add_data decode augment_data u xl yl f0 f1 index (augment a) (augment_flip a)
              (augment_distortion_factor a) (patch_shape a) (skip_blank a) (permute a) w
            = (None, (fst xl @ [n0], snd xl @ [n1]),
               (fst yl @ [l], fst (snd yl) @ [t0], snd (snd yl) @ [t1]), w')
            \<and> shape n0 = s0 \<and> shape n1 = s1 \<and> shape t0 = s2 \<and> shape t1 = s3"
  shows "\<exists>bs w'. data_generator decode augment_data u f0 f1 index_list a k w = (bs, None, w')
           \<and> map batch_len bs = concat (replicate k [3, 3, 1])"
proof (induction k arbitrary: w)
  case 0
  show ?case by simp
next
  case (Suc k)
  have "\<exists>bs w1. epoch decode augment_data u f0 f1 index_list a w = (bs, None, w1)
           \<and> map batch_len bs = [3, 3, 1]"
    using epoch_batches [where a = a and index_list = index_list and decode = decode
      and augment_data = augment_data and u = u and ?f0.0 = f0 and ?f1.0 = f1
      and ?s0.0 = s0 and ?s1.0 = s1
      and ?s2.0 = s2 and ?s3.0 = s3 and w = w, OF len bsz nops n H]
    by simp
  then obtain bs w1 where e: "epoch decode augment_data u f0 f1 index_list a w = (bs, None, w1)"
    and s: "map batch_len bs = [3, 3, 1]" by auto
  from Suc.IH [of w1]
  obtain bs' w2 where g: "data_generator decode augment_data u f0 f1 index_list a k w1 = (bs', None, w2)"
    and s': "map batch_len bs' = concat (replicate k [3, 3, 1])" by auto
  show ?case using e s g s' by simp
qed

theorem data_generator_batches_witness:
  "\<exists>bs w'.
     data_generator Inr failing_augmenter int16 (uniform_file ''s-C1'' ramp lesion)
       (uniform_file ''s-C1'' flat lesion) (map Idx [0, 1, 2, 3, 4, 5, 6])
       (default_kwargs\<lparr>batch_size := 3, shuffle_index_list := True\<rparr>) 2 quiet_world
     = (bs, None, w')
     \<and> map batch_len bs = [3, 3, 1, 3, 3, 1]"
proof -
  let ?a = "default_kwargs\<lparr>batch_size := 3, shuffle_index_list := True\<rparr>"
  let ?il = "map Idx [0, 1, 2, 3, 4, 5, 6]"
  have H: "\<And>index xl yl w. index \<in> set ?il \<Longrightarrow>
          \<exists>n0 n1 l t0 t1 w'.
            add_data Inr failing_augmenter int16 xl yl (uniform_file ''s-C1'' ramp lesion)
              (uniform_file ''s-C1'' flat lesion) index (augment ?a) (augment_flip ?a)
              (augment_distortion_factor ?a) (patch_shape ?a) (skip_blank ?a) (permute ?a) w
            = (None, (fst xl @ [n0], snd xl @ [n1]),
               (fst yl @ [l], fst (snd yl) @ [t0], snd (snd yl) @ [t1]), w')
            \<and> shape n0 = [1, 2, 2] \<and> shape n1 = [1, 2, 2]
            \<and> shape t0 = [1, 2, 2] \<and> shape t1 = [1, 2, 2]"
  proof -
    have sh: "shape (newaxis lesion) = [1, 2, 2]" by (simp add: newaxis_def lesion_def)
    fix index :: index and xl :: "(16 word, f64) x_list" and yl :: y_list and w :: world
    show "?thesis index xl yl w"
      by (simp add: default_kwargs_def add_data_uniform sh ramp_scaled_def flat_zero_def)
  qed
  have l: "length ?il = 7" by simp
  have b: "batch_size ?a = 3" by simp
  have p: "\<not> py_truthy (patch_shape ?a)" by (simp add: default_kwargs_def py_truthy_def)
  have n: "n_labels ?a \<le> 1" by (simp add: default_kwargs_def)
  have "\<exists>bs w'.
     data_generator Inr failing_augmenter int16 (uniform_file ''s-C1'' ramp lesion)
       (uniform_file ''s-C1'' flat lesion) ?il ?a 2 quiet_world = (bs, None, w')
     \<and> map batch_len bs = concat (replicate 2 [3, 3, 1])"
    using data_generator_batches [where a = ?a and index_list = ?il and decode = Inr
      and augment_data = failing_augmenter and u = int16
      and ?f0.0 = "uniform_file ''s-C1'' ramp lesion"
      and ?f1.0 = "uniform_file ''s-C1'' flat lesion" and ?s0.0 = "[1, 2, 2]"
      and ?s1.0 = "[1, 2, 2]" and ?s2.0 = "[1, 2, 2]" and ?s3.0 = "[1, 2, 2]"
      and k = 2 and w = quiet_world, OF l b p n H]
    by simp
  then show ?thesis by (simp add: numeral_2_eq_2)
qed

end
